theory Spec2Isabelle
  imports Main
begin

section \<open>The chat gateway of \<open>src/services/chatAPI.ts\<close>\<close>

text \<open>
  The module is a browser-side HTTP client. Everything it does is an effect on two pieces
  of the hosting environment: the key \<open>auth_token\<close> of \<open>localStorage\<close> and the
  outside world (requests sent, events dispatched, lines logged). Both are made explicit:
  every function takes a \<open>world\<close> and returns the new one, and the world records the
  effects in program order. What the network answers, what the role classifier says and
  whether \<open>localStorage.removeItem\<close> or \<open>new CustomEvent\<close> throw is read from an
  \<open>env\<close>.
\<close>

subsection \<open>Values returned by \<open>response.json()\<close>\<close>

text \<open>
  \<open>response.json()\<close> has type \<open>any\<close>: the module receives whatever JSON the server
  sent. A number is kept as its ECMAScript rendering \<open>String(n)\<close>, which is all the
  module observes of it; a number is falsy exactly when it renders as \<open>0\<close>
  (\<open>0\<close> and \<open>-0\<close>). An object is the list of its own properties.
\<close>

datatype json =
    JNull
  | JBool bool
  | JNum string
  | JStr string
  | JArr "json list"
  | JObj "(string \<times> json) list"

text \<open>JavaScript truthiness, as tested by \<open>if (x)\<close>, \<open>!x\<close>, \<open>&&\<close> and \<open>||\<close>.\<close>

fun truthy :: "json \<Rightarrow> bool" where
  "truthy JNull = False"
| "truthy (JBool b) = b"
| "truthy (JNum n) = (n \<noteq> ''0'')"
| "truthy (JStr s) = (s \<noteq> [])"
| "truthy (JArr xs) = True"
| "truthy (JObj kvs) = True"

text \<open>
  \<open>x?.k\<close> for the property names the module reads (\<open>response\<close>,
  \<open>conversation_history\<close>, \<open>session_id\<close>, \<open>email\<close>): only an object can have them;
  \<open>None\<close> is \<open>undefined\<close>.
\<close>

fun get_prop :: "json \<Rightarrow> string \<Rightarrow> json option" where
  "get_prop (JObj kvs) k = map_of kvs k"
| "get_prop v k = None"

text \<open>\<open>a || b\<close> where \<open>a\<close> may be \<open>undefined\<close>.\<close>

fun or_js :: "json option \<Rightarrow> json \<Rightarrow> json" where
  "or_js None b = b"
| "or_js (Some a) b = (if truthy a then a else b)"

text \<open>\<open>String(v)\<close>, which is also what a template literal and \<open>URLSearchParams.append\<close> apply.\<close>

fun intersperse_comma :: "string list \<Rightarrow> string" where
  "intersperse_comma [] = []"
| "intersperse_comma [s] = s"
| "intersperse_comma (s # t # ss) = s @ '','' @ intersperse_comma (t # ss)"

fun js_String :: "json \<Rightarrow> string" where
  "js_String JNull = ''null''"
| "js_String (JBool b) = (if b then ''true'' else ''false'')"
| "js_String (JNum n) = n"
| "js_String (JStr s) = s"
| "js_String (JArr xs) =
     intersperse_comma (map (\<lambda>x. if x = JNull then [] else js_String x) xs)"
| "js_String (JObj kvs) = ''[object Object]''"

text \<open>
  The spread \<open>[...v]\<close>: an array gives its elements, a string its characters, and any other
  value is not iterable, which throws a \<open>TypeError\<close>. What the module can throw is an
  \<open>Error\<close> it makes itself (with its message), a rejection of \<open>fetch\<close> or of \<open>json()\<close>
  that it passes on (with \<open>String(e)\<close>), that \<open>TypeError\<close>, or the \<open>TypeError\<close> of
  \<open>new URL(s)\<close> on a string \<open>s\<close> that is not a valid URL.
\<close>

datatype exn =
    Error string
  | Rejected string
  | NotIterable json
  | InvalidURL string

fun spread :: "json \<Rightarrow> exn + json list" where
  "spread (JArr xs) = Inr xs"
| "spread (JStr s) = Inr (map (\<lambda>c. JStr [c]) s)"
| "spread v = Inl (NotIterable v)"

text \<open>The decimal rendering of a status code or an index in a template literal.\<close>

definition digit_char :: "nat \<Rightarrow> char" where
  "digit_char d = ''0123456789'' ! d"

function Number_toString :: "nat \<Rightarrow> string" where
  "Number_toString n =
     (if n < 10 then [digit_char n] else Number_toString (n div 10) @ [digit_char (n mod 10)])"
  by pat_completeness auto
termination
  by (relation "measure id") auto

declare Number_toString.simps [simp del]

definition NL :: string where
  "NL = [CHR 0x0A]"

subsection \<open>Requests, responses, the environment and the world\<close>

record request =
  http_method :: string
  url :: string
  headers :: "(string \<times> string) list"
  body :: "json option"

text \<open>
  A \<open>Response\<close>: its status, what \<open>headers.get("x-access-token")\<close> returns (\<open>None\<close> is
  \<open>null\<close>) and what \<open>json()\<close> settles to (\<open>Inl\<close> is a rejection, carrying \<open>String(e)\<close>).
  \<open>response.ok\<close> is derived from the status, as the Fetch standard defines it.
\<close>

record response =
  status :: nat
  x_access_token :: "string option"
  payload :: "string + json"

definition ok :: "response \<Rightarrow> bool" where
  "ok r = (200 \<le> status r \<and> status r \<le> 299)"

text \<open>A \<open>fetch\<close> promise either rejects (with \<open>String(e)\<close>) or resolves to a response.\<close>

datatype fetch_result = Rejects string | Resolves response

record event =
  ev_type :: string
  bubbles :: bool
  cancelable :: bool
  detail_status :: nat

text \<open>
  The effects, in the order the module performs them: \<open>Fetch\<close> is a call of \<open>fetch\<close>
  (the request is dispatched), \<open>Await\<close> the \<open>await\<close> of its promise, \<open>UpdateToken\<close> and
  \<open>AuthCheck\<close> the calls of \<open>updateAccessTokenFromResponse\<close> and \<open>handleAuthError\<close> on
  a response, \<open>Json\<close> the call of \<open>response.json()\<close>.
\<close>

datatype action =
    Fetch request
  | Await request
  | UpdateToken response
  | SetItem string
  | AuthCheck response
  | RemoveItem
  | DispatchEvent event
  | Json response
  | ConsoleError string exn

record world =
  auth_token :: "string option"
  trace :: "action list"

text \<open>
  \<open>Auth_Base_URL\<close> and \<open>Guidance_Base_URL\<close> (from \<open>../App\<close>) and
  \<open>userRoleUtils.isUndergraduate\<close> (from \<open>../utils/userRole\<close>) are not part of the file:
  they are parameters. \<open>net\<close> is what the network answers to a request.
  \<open>new_URL\<close> and \<open>searchParams_append\<close> are the platform's \<open>URL\<close>: a URL object is
  held as its serialisation (its \<open>href\<close>, which \<open>toString()\<close> returns);
  \<open>new_URL s\<close> is the URL that \<open>new URL(s)\<close> makes, \<open>None\<close> when it throws, and
  \<open>searchParams_append k v u\<close> is the URL \<open>u\<close> after \<open>u.searchParams.append(k, v)\<close>.
  \<open>removeItem_throws\<close> and \<open>CustomEvent_throws\<close> say whether the two calls that
  \<open>handleAuthError\<close> guards with \<open>try\<close> throw; the calls the module does not guard
  (\<open>setItem\<close>, \<open>dispatchEvent\<close>, \<open>createEvent\<close>) are taken to succeed.
\<close>

record env =
  Auth_Base_URL :: string
  Guidance_Base_URL :: string
  isUndergraduate :: "json \<Rightarrow> bool"
  net :: "request \<Rightarrow> fetch_result"
  removeItem_throws :: bool
  CustomEvent_throws :: bool
  new_URL :: "string \<Rightarrow> string option"
  searchParams_append :: "string \<Rightarrow> string \<Rightarrow> string \<Rightarrow> string"

definition emit :: "action \<Rightarrow> world \<Rightarrow> world" where
  "emit a w = w\<lparr>trace := trace w @ [a]\<rparr>"

text \<open>
  Modelled from the spec: \<open>getAccessToken\<close> of \<open>./authAPI\<close> is not part of the file. The
  spec's AuthToken is an "opaque string held in process-wide storage", "read before every
  request"; the storage is the key \<open>auth_token\<close> that the file itself writes and removes.
\<close>

definition getAccessToken :: "world \<Rightarrow> string option" where
  "getAccessToken w = auth_token w"

text \<open>The template literal \<open>`Bearer ${token}`\<close>; \<open>null\<close> renders as \<open>null\<close>.\<close>

definition bearer :: "string option \<Rightarrow> string" where
  "bearer t = ''Bearer '' @ (case t of None \<Rightarrow> ''null'' | Some s \<Rightarrow> s)"

subsection \<open>\<open>fetchUserEmailFromProfile\<close>\<close>

definition me_request :: "env \<Rightarrow> string \<Rightarrow> request" where
  "me_request env token =
     \<lparr>http_method = ''GET'', url = Auth_Base_URL env @ ''/auth/me'',
      headers = [(''Authorization'', bearer (Some token)),
                 (''Content-Type'', ''application/json'')],
      body = None\<rparr>"

text \<open>
  Every failure gives \<open>null\<close>: no token, a rejected \<open>fetch\<close>, a status that is not ok, a
  body that does not parse, and \<open>data.email\<close> on \<open>null\<close> (a \<open>TypeError\<close>, caught).
\<close>

definition fetchUserEmailFromProfile :: "env \<Rightarrow> world \<Rightarrow> json \<times> world" where
  "fetchUserEmailFromProfile env w =
     (case getAccessToken w of
        None \<Rightarrow> (JNull, w)
      | Some token \<Rightarrow>
          if token = [] then (JNull, w)
          else
            let req = me_request env token;
                w1 = emit (Await req) (emit (Fetch req) w)
            in (case net env req of
                  Rejects e \<Rightarrow> (JNull, w1)
                | Resolves r \<Rightarrow>
                    if \<not> ok r then (JNull, w1)
                    else
                      let w2 = emit (Json r) w1
                      in (case payload r of
                            Inl e \<Rightarrow> (JNull, w2)
                          | Inr data \<Rightarrow>
                              (if data = JNull then JNull
                               else or_js (get_prop data ''email'') JNull, w2))))"

subsection \<open>\<open>updateAccessTokenFromResponse\<close> and \<open>handleAuthError\<close>\<close>

definition updateAccessTokenFromResponse :: "response \<Rightarrow> world \<Rightarrow> world" where
  "updateAccessTokenFromResponse r w =
     (let w1 = emit (UpdateToken r) w
      in case x_access_token r of
           None \<Rightarrow> w1
         | Some newToken \<Rightarrow>
             if newToken \<noteq> [] then emit (SetItem newToken) (w1\<lparr>auth_token := Some newToken\<rparr>)
             else w1)"

text \<open>
  \<open>new CustomEvent(name, {detail})\<close> makes an event that neither bubbles nor can be
  cancelled; the fallback \<open>initCustomEvent(name, true, true, detail)\<close> makes one that does
  both. A \<open>removeItem\<close> that throws leaves the stored token as it was.
\<close>

definition handleAuthError :: "env \<Rightarrow> response \<Rightarrow> world \<Rightarrow> world" where
  "handleAuthError env r w =
     (let w1 = emit (AuthCheck r) w
      in if status r = 401 \<or> status r = 403 then
           let w2 = (if removeItem_throws env then emit RemoveItem w1
                     else emit RemoveItem (w1\<lparr>auth_token := None\<rparr>));
               ev = (if CustomEvent_throws env
                     then \<lparr>ev_type = ''auth:logout'', bubbles = True, cancelable = True,
                           detail_status = status r\<rparr>
                     else \<lparr>ev_type = ''auth:logout'', bubbles = False, cancelable = False,
                           detail_status = status r\<rparr>)
           in emit (DispatchEvent ev) w2
         else w1)"

subsection \<open>One guidance call\<close>

text \<open>
  Every method of \<open>ApiService\<close> repeats the same lines after a \<open>fetch\<close>:
  \<open>updateAccessTokenFromResponse(response); handleAuthError(response);
  if (!response.ok) throw new Error(`HTTP error! status: ${response.status}`)\<close>
  and, except \<open>sendFeedback\<close>, \<open>return await response.json()\<close>. They are written once.
\<close>

definition process_response :: "env \<Rightarrow> response \<Rightarrow> world \<Rightarrow> world" where
  "process_response env r w = handleAuthError env r (updateAccessTokenFromResponse r w)"

definition read_json :: "response \<Rightarrow> world \<Rightarrow> (exn + json) \<times> world" where
  "read_json r w =
     (case payload r of
        Inl e \<Rightarrow> (Inl (Rejected e), emit (Json r) w)
      | Inr v \<Rightarrow> (Inr v, emit (Json r) w))"

definition call_checked :: "env \<Rightarrow> request \<Rightarrow> world \<Rightarrow> (exn + response) \<times> world" where
  "call_checked env req w =
     (let w1 = emit (Await req) (emit (Fetch req) w)
      in case net env req of
           Rejects e \<Rightarrow> (Inl (Rejected e), w1)
         | Resolves r \<Rightarrow>
             let w2 = process_response env r w1
             in if \<not> ok r
                then (Inl (Error (''HTTP error! status: '' @ Number_toString (status r))), w2)
                else (Inr r, w2))"

definition call_json :: "env \<Rightarrow> request \<Rightarrow> world \<Rightarrow> (exn + json) \<times> world" where
  "call_json env req w =
     (case call_checked env req w of
        (Inl e, w1) \<Rightarrow> (Inl e, w1)
      | (Inr r, w1) \<Rightarrow> read_json r w1)"

text \<open>The outer \<open>catch (error) { console.error(label, error); throw error; }\<close>.\<close>

definition log_and_rethrow :: "string \<Rightarrow> (exn + 'a) \<times> world \<Rightarrow> (exn + 'a) \<times> world" where
  "log_and_rethrow label rw =
     (case rw of
        (Inl e, w) \<Rightarrow> (Inl e, emit (ConsoleError label e) w)
      | (Inr v, w) \<Rightarrow> (Inr v, w))"

subsection \<open>\<open>sendMessage\<close>\<close>

definition chat_request :: "env \<Rightarrow> string \<Rightarrow> string option \<Rightarrow> json \<Rightarrow> request" where
  "chat_request env side token postBodyBase =
     \<lparr>http_method = ''POST'', url = Guidance_Base_URL env @ ''/'' @ side @ ''/chat'',
      headers = [(''Content-Type'', ''application/json''), (''Authorization'', bearer token)],
      body = Some postBodyBase\<rparr>"

definition placeholder :: "string \<Rightarrow> string \<Rightarrow> json" where
  "placeholder text sessionId =
     JObj [(''response'', JStr text), (''conversation_history'', JArr []),
           (''session_id'', JStr sessionId)]"

text \<open>
  The block \<open>if (ruhPromise) { try { ... } catch (e) { ... } }\<close> and its twin for UGC,
  which differ in the label only.
\<close>

definition await_side :: "env \<Rightarrow> string \<Rightarrow> string \<Rightarrow> request \<Rightarrow> world \<Rightarrow> json \<times> world" where
  "await_side env label sessionId req w =
     (let w1 = emit (Await req) w
      in case net env req of
           Rejects e \<Rightarrow> (placeholder (label @ '' request error: '' @ e) sessionId, w1)
         | Resolves r \<Rightarrow>
             let w2 = process_response env r w1
             in if ok r then
                  (case payload r of
                     Inl e \<Rightarrow>
                       (placeholder (label @ '' request error: '' @ e) sessionId,
                        emit (Json r) w2)
                   | Inr v \<Rightarrow> (v, emit (Json r) w2))
                else
                  (placeholder (label @ '' request failed: '' @ Number_toString (status r))
                     sessionId, w2))"

text \<open>\<open>a || b\<close> where both sides may be \<open>undefined\<close>.\<close>

fun or_undef :: "json option \<Rightarrow> json option \<Rightarrow> json option" where
  "or_undef None b = b"
| "or_undef (Some a) b = (if truthy a then Some a else b)"

text \<open>The lines from "Build combined/selected response" on.\<close>

definition combine :: "json \<Rightarrow> json \<Rightarrow> string \<Rightarrow> exn + json" where
  "combine ruhRespJson ugcRespJson sessionId =
     (if truthy ruhRespJson \<and> \<not> truthy ugcRespJson then Inr ruhRespJson
      else if truthy ugcRespJson \<and> \<not> truthy ruhRespJson then Inr ugcRespJson
      else
        let text = ''[RUH]'' @ NL
              @ js_String (or_js (get_prop ruhRespJson ''response'') (JStr ''(no response)''))
              @ NL @ NL @ ''[UGC]'' @ NL
              @ js_String (or_js (get_prop ugcRespJson ''response'') (JStr ''(no response)''))
        in case spread (or_js (get_prop ruhRespJson ''conversation_history'') (JArr [])) of
             Inl e \<Rightarrow> Inl e
           | Inr ruhHistory \<Rightarrow>
               (case spread (or_js (get_prop ugcRespJson ''conversation_history'') (JArr [])) of
                  Inl e \<Rightarrow> Inl e
                | Inr ugcHistory \<Rightarrow>
                    Inr (JObj
                      [(''response'', JStr text),
                       (''conversation_history'', JArr (ruhHistory @ ugcHistory)),
                       (''session_id'',
                          or_js (or_undef (get_prop ruhRespJson ''session_id'')
                                          (get_prop ugcRespJson ''session_id''))
                                (JStr sessionId))])))"

definition postBodyBase :: "string \<Rightarrow> string \<Rightarrow> json \<Rightarrow> string option \<Rightarrow> json" where
  "postBodyBase message sessionId userEmail guidanceFilter =
     JObj ([(''message'', JStr message), (''session_id'', JStr sessionId),
            (''user_id'', userEmail)]
           @ (case guidanceFilter of
                None \<Rightarrow> []
              | Some g \<Rightarrow> if g \<noteq> [] then [(''guidance_filter'', JStr g)] else []))"

text \<open>The body of the \<open>try\<close>, from \<open>const isUG = ...\<close> on.\<close>

definition sendMessage_try ::
  "env \<Rightarrow> string \<Rightarrow> json \<Rightarrow> json \<Rightarrow> bool option \<Rightarrow> world \<Rightarrow> (exn + json) \<times> world" where
  "sendMessage_try env sessionId userEmail pb onlyUseRuh w =
     (if isUndergraduate env userEmail then
        call_json env (chat_request env ''ruh'' (getAccessToken w) pb) w
      else
        let ruhPromise =
              (if onlyUseRuh = None \<or> onlyUseRuh = Some True
               then Some (chat_request env ''ruh'' (getAccessToken w) pb) else None);
            w1 = (case ruhPromise of None \<Rightarrow> w | Some q \<Rightarrow> emit (Fetch q) w);
            ugcPromise =
              (if onlyUseRuh = None \<or> onlyUseRuh = Some False
               then Some (chat_request env ''ugc'' (getAccessToken w1) pb) else None);
            w2 = (case ugcPromise of None \<Rightarrow> w1 | Some q \<Rightarrow> emit (Fetch q) w1);
            (ruhRespJson, w3) =
              (case ruhPromise of
                 None \<Rightarrow> (JNull, w2)
               | Some q \<Rightarrow> await_side env ''RUH'' sessionId q w2);
            (ugcRespJson, w4) =
              (case ugcPromise of
                 None \<Rightarrow> (JNull, w3)
               | Some q \<Rightarrow> await_side env ''UGC'' sessionId q w3)
        in (combine ruhRespJson ugcRespJson sessionId, w4))"

text \<open>
  \<open>sessionId\<close> is \<open>None\<close> when the caller leaves it out (the default \<open>"default"\<close> applies),
  \<open>onlyUseRuh\<close> is \<open>None\<close> when it is \<open>undefined\<close>.
\<close>

definition default_session :: "string option \<Rightarrow> string" where
  "default_session sessionId = (case sessionId of None \<Rightarrow> ''default'' | Some s \<Rightarrow> s)"

definition sendMessage ::
  "env \<Rightarrow> string \<Rightarrow> string option \<Rightarrow> string option \<Rightarrow> bool option \<Rightarrow> world
     \<Rightarrow> (exn + json) \<times> world" where
  "sendMessage env message sessionId guidanceFilter onlyUseRuh w =
     (let sid = default_session sessionId;
          (userEmail, w1) = fetchUserEmailFromProfile env w;
          pb = postBodyBase message sid userEmail guidanceFilter
      in log_and_rethrow ''Error sending message:''
           (sendMessage_try env sid userEmail pb onlyUseRuh w1))"

subsection \<open>The forwarding operations\<close>

text \<open>\<open>userId || (await fetchUserEmailFromProfile())\<close>: an empty \<open>userId\<close> is falsy.\<close>

definition resolve_user :: "env \<Rightarrow> string option \<Rightarrow> world \<Rightarrow> json \<times> world" where
  "resolve_user env userId w =
     (case userId of
        None \<Rightarrow> fetchUserEmailFromProfile env w
      | Some u \<Rightarrow> if u \<noteq> [] then (JStr u, w) else fetchUserEmailFromProfile env w)"

text \<open>\<open>new URL(s)\<close>, which throws a \<open>TypeError\<close> when \<open>s\<close> does not parse.\<close>

definition construct_URL :: "env \<Rightarrow> string \<Rightarrow> exn + string" where
  "construct_URL env s = (case new_URL env s of None \<Rightarrow> Inl (InvalidURL s) | Some u \<Rightarrow> Inr u)"

text \<open>\<open>if (v) url.searchParams.append(k, v)\<close>.\<close>

definition append_if :: "env \<Rightarrow> string \<Rightarrow> json \<Rightarrow> string \<Rightarrow> string" where
  "append_if env k v u = (if truthy v then searchParams_append env k (js_String v) u else u)"

definition session_request :: "env \<Rightarrow> json \<Rightarrow> string option \<Rightarrow> request" where
  "session_request env resolvedUser token =
     \<lparr>http_method = ''POST'', url = Guidance_Base_URL env @ ''/chat/session'',
      headers = [(''Content-Type'', ''application/json''), (''Authorization'', bearer token)],
      body = Some (JObj [(''user_id'', resolvedUser)])\<rparr>"

definition createNewChatSession ::
  "env \<Rightarrow> string option \<Rightarrow> world \<Rightarrow> (exn + json) \<times> world" where
  "createNewChatSession env userId w =
     log_and_rethrow ''Error creating new chat session:''
       (let (resolvedUser, w1) = resolve_user env userId w
        in call_json env (session_request env resolvedUser (getAccessToken w1)) w1)"

datatype feedback = Like | Dislike

text \<open>
  \<open>JSON.stringify\<close> leaves out a property whose value is \<open>undefined\<close>, so \<open>user_id\<close> is
  in the body only when the caller gave a \<open>userId\<close>. The response body is not read.
\<close>

definition feedback_request ::
  "env \<Rightarrow> string \<Rightarrow> nat \<Rightarrow> feedback \<Rightarrow> string option \<Rightarrow> string option \<Rightarrow> request" where
  "feedback_request env sessionId messageIndex feedbackType userId token =
     \<lparr>http_method = ''POST'', url = Guidance_Base_URL env @ ''/feedback'',
      headers = [(''Content-Type'', ''application/json''), (''Authorization'', bearer token)],
      body = Some (JObj
        ([(''session_id'', JStr sessionId),
          (''message_index'', JNum (Number_toString messageIndex)),
          (''feedback_type'',
             JStr (case feedbackType of Like \<Rightarrow> ''like'' | Dislike \<Rightarrow> ''dislike''))]
         @ (case userId of None \<Rightarrow> [] | Some u \<Rightarrow> [(''user_id'', JStr u)])))\<rparr>"

definition sendFeedback ::
  "env \<Rightarrow> string \<Rightarrow> nat \<Rightarrow> feedback \<Rightarrow> string option \<Rightarrow> world \<Rightarrow> (exn + unit) \<times> world" where
  "sendFeedback env sessionId messageIndex feedbackType userId w =
     log_and_rethrow ''Error sending feedback:''
       (case call_checked env
               (feedback_request env sessionId messageIndex feedbackType userId
                  (getAccessToken w)) w of
          (Inl e, w1) \<Rightarrow> (Inl e, w1)
        | (Inr r, w1) \<Rightarrow> (Inr (), w1))"

text \<open>
  The URL of \<open>getChatHistory\<close>: \<open>sessionId\<close> goes into the string that \<open>new URL\<close>
  parses, \<open>user_id\<close> is appended as a search parameter when \<open>resolvedUser\<close> is truthy.
\<close>

definition history_url :: "env \<Rightarrow> string \<Rightarrow> json \<Rightarrow> exn + string" where
  "history_url env sid resolvedUser =
     (case construct_URL env (Guidance_Base_URL env @ ''/chat/'' @ sid @ ''/history'') of
        Inl e \<Rightarrow> Inl e
      | Inr u \<Rightarrow> Inr (append_if env ''user_id'' resolvedUser u))"

definition getChatHistory ::
  "env \<Rightarrow> string option \<Rightarrow> string option \<Rightarrow> world \<Rightarrow> (exn + json) \<times> world" where
  "getChatHistory env sessionId userId w =
     log_and_rethrow ''Error getting chat history:''
       (let sid = default_session sessionId;
            (resolvedUser, w1) = resolve_user env userId w
        in case history_url env sid resolvedUser of
             Inl e \<Rightarrow> (Inl e, w1)
           | Inr href \<Rightarrow>
               call_json env
                 \<lparr>http_method = ''GET'', url = href,
                  headers = [(''Authorization'', bearer (getAccessToken w1))],
                  body = None\<rparr> w1)"

definition health_request :: "env \<Rightarrow> string option \<Rightarrow> request" where
  "health_request env token =
     \<lparr>http_method = ''GET'', url = Guidance_Base_URL env @ ''/health'',
      headers = [(''Authorization'', bearer token)],
      body = None\<rparr>"

definition healthCheck :: "env \<Rightarrow> world \<Rightarrow> (exn + json) \<times> world" where
  "healthCheck env w =
     log_and_rethrow ''Error checking health:''
       (call_json env (health_request env (getAccessToken w)) w)"

definition sessions_url :: "env \<Rightarrow> json \<Rightarrow> exn + string" where
  "sessions_url env resolvedUser =
     (case construct_URL env (Guidance_Base_URL env @ ''/chat/sessions'') of
        Inl e \<Rightarrow> Inl e
      | Inr u \<Rightarrow> Inr (append_if env ''user_id'' resolvedUser u))"

definition getChatSessions :: "env \<Rightarrow> string option \<Rightarrow> world \<Rightarrow> (exn + json) \<times> world" where
  "getChatSessions env userId w =
     log_and_rethrow ''Error getting chat sessions:''
       (let (resolvedUser, w1) = resolve_user env userId w
        in case sessions_url env resolvedUser of
             Inl e \<Rightarrow> (Inl e, w1)
           | Inr href \<Rightarrow>
               call_json env
                 \<lparr>http_method = ''GET'', url = href,
                  headers = [(''Authorization'', bearer (getAccessToken w1))],
                  body = None\<rparr> w1)"

text \<open>
  The URL of \<open>routeLatest\<close>: the prefix comes from the classifier, then \<open>session_id\<close> and
  \<open>user_id\<close> are appended, each when it is truthy.
\<close>

definition route_url :: "env \<Rightarrow> string \<Rightarrow> json \<Rightarrow> exn + string" where
  "route_url env sid resolvedUser =
     (let prefix = (if isUndergraduate env resolvedUser then ''ruh'' else ''ugc'')
      in case construct_URL env (Guidance_Base_URL env @ ''/'' @ prefix @ ''/chat/route'') of
           Inl e \<Rightarrow> Inl e
         | Inr u \<Rightarrow>
             Inr (append_if env ''user_id'' resolvedUser
                    (append_if env ''session_id'' (JStr sid) u)))"

definition routeLatest ::
  "env \<Rightarrow> string option \<Rightarrow> string option \<Rightarrow> world \<Rightarrow> (exn + json) \<times> world" where
  "routeLatest env sessionId userId w =
     log_and_rethrow ''Error routing latest message:''
       (let sid = default_session sessionId;
            (resolvedUser, w1) = resolve_user env userId w
        in case route_url env sid resolvedUser of
             Inl e \<Rightarrow> (Inl e, w1)
           | Inr href \<Rightarrow>
               call_json env
                 \<lparr>http_method = ''POST'', url = href,
                  headers = [(''Authorization'', bearer (getAccessToken w1))],
                  body = None\<rparr> w1)"

subsection \<open>Observing a run\<close>

text \<open>The requests dispatched and the events broadcast, in order, read off a trace.\<close>

fun fetched :: "action list \<Rightarrow> request list" where
  "fetched [] = []"
| "fetched (Fetch q # t) = q # fetched t"
| "fetched (a # t) = fetched t"

fun dispatched :: "action list \<Rightarrow> event list" where
  "dispatched [] = []"
| "dispatched (DispatchEvent e # t) = e # dispatched t"
| "dispatched (a # t) = dispatched t"

text \<open>
  The identity that a run started in \<open>w\<close> resolves, the world the lookup leaves, and the two
  chat requests that \<open>sendMessage\<close> builds from its arguments in that world.
\<close>

definition identity :: "env \<Rightarrow> world \<Rightarrow> json" where
  "identity env w = fst (fetchUserEmailFromProfile env w)"

definition after_lookup :: "env \<Rightarrow> world \<Rightarrow> world" where
  "after_lookup env w = snd (fetchUserEmailFromProfile env w)"

definition ruh_request ::
  "env \<Rightarrow> string \<Rightarrow> string option \<Rightarrow> string option \<Rightarrow> world \<Rightarrow> request" where
  "ruh_request env message sessionId guidanceFilter w =
     chat_request env ''ruh'' (auth_token w)
       (postBodyBase message (default_session sessionId) (identity env w) guidanceFilter)"

definition ugc_request ::
  "env \<Rightarrow> string \<Rightarrow> string option \<Rightarrow> string option \<Rightarrow> world \<Rightarrow> request" where
  "ugc_request env message sessionId guidanceFilter w =
     chat_request env ''ugc'' (auth_token w)
       (postBodyBase message (default_session sessionId) (identity env w) guidanceFilter)"

text \<open>
  What one side contributes and which effects its handling has, taken from a run of the
  side's block in a world without history.
\<close>

definition blank :: world where
  "blank = \<lparr>auth_token = None, trace = []\<rparr>"

definition side_json :: "env \<Rightarrow> string \<Rightarrow> string \<Rightarrow> request \<Rightarrow> json" where
  "side_json env label sessionId q = fst (await_side env label sessionId q blank)"

definition response_actions :: "env \<Rightarrow> response \<Rightarrow> action list" where
  "response_actions env r = trace (process_response env r blank)"

definition handling :: "env \<Rightarrow> fetch_result \<Rightarrow> action list" where
  "handling env outcome =
     (case outcome of
        Rejects e \<Rightarrow> []
      | Resolves r \<Rightarrow> response_actions env r @ (if ok r then [Json r] else []))"

text \<open>
  The stored token after a response went through \<open>updateAccessTokenFromResponse\<close> and
  \<open>handleAuthError\<close>, as a function of the token before.
\<close>

definition token_after :: "env \<Rightarrow> fetch_result \<Rightarrow> string option \<Rightarrow> string option" where
  "token_after env outcome t =
     (case outcome of
        Rejects e \<Rightarrow> t
      | Resolves r \<Rightarrow> auth_token (process_response env r \<lparr>auth_token = t, trace = []\<rparr>))"

subsection \<open>Example environments\<close>

text \<open>
  A network that answers the identity lookup, the two chat endpoints and every other
  request with four given outcomes, over the base URLs \<open>A\<close> and \<open>G\<close>; a classifier for
  which exactly \<open>ug@uni\<close> is an undergraduate; and a world in which the token \<open>T1\<close> is
  stored. Its \<open>URL\<close> does what the URL standard says on the strings used below: a string
  without a scheme is refused; a string that starts with \<open>https://\<close> and has nothing for
  the parser to rewrite is its own serialisation; a parameter is appended after \<open>?\<close> or
  \<open>&\<close>, its \<open>@\<close> percent-encoded.
\<close>

definition example_new_URL :: "string \<Rightarrow> string option" where
  "example_new_URL s = (if take 8 s = ''https://'' then Some s else None)"

definition example_searchParams_append :: "string \<Rightarrow> string \<Rightarrow> string \<Rightarrow> string" where
  "example_searchParams_append k v u =
     u @ (if CHR ''?'' \<in> set u then ''&'' else ''?'') @ k @ ''=''
       @ concat (map (\<lambda>c. if c = CHR ''@'' then ''%40'' else [c]) v)"

definition example_net ::
  "fetch_result \<Rightarrow> fetch_result \<Rightarrow> fetch_result \<Rightarrow> fetch_result \<Rightarrow> request \<Rightarrow> fetch_result" where
  "example_net me ruh ugc other q =
     (if url q = ''A/auth/me'' then me
      else if url q = ''G/ruh/chat'' then ruh
      else if url q = ''G/ugc/chat'' then ugc
      else other)"

definition example_env ::
  "fetch_result \<Rightarrow> fetch_result \<Rightarrow> fetch_result \<Rightarrow> fetch_result \<Rightarrow> env" where
  "example_env me ruh ugc other =
     \<lparr>Auth_Base_URL = ''A'', Guidance_Base_URL = ''G'',
      isUndergraduate = (\<lambda>u. u = JStr ''ug@uni''),
      net = example_net me ruh ugc other,
      removeItem_throws = False, CustomEvent_throws = False,
      new_URL = example_new_URL, searchParams_append = example_searchParams_append\<rparr>"

definition reply :: "nat \<Rightarrow> json \<Rightarrow> fetch_result" where
  "reply st v = Resolves \<lparr>status = st, x_access_token = None, payload = Inr v\<rparr>"

definition profile :: "string \<Rightarrow> fetch_result" where
  "profile email = reply 200 (JObj [(''email'', JStr email)])"

definition offline :: fetch_result where
  "offline = Rejects ''TypeError: Failed to fetch''"

definition signed_in :: world where
  "signed_in = \<lparr>auth_token = Some ''T1'', trace = []\<rparr>"

text \<open>A body of the shape of \<open>ChatResponse\<close>.\<close>

definition chat_response :: "string \<Rightarrow> json list \<Rightarrow> string \<Rightarrow> json" where
  "chat_response text history sessionId =
     JObj [(''response'', JStr text), (''conversation_history'', JArr history),
           (''session_id'', JStr sessionId)]"

subsection \<open>The spec's wording, for comparison with the code\<close>

text \<open>
  "A deterministic concatenation of both upstream texts under labeled headers", \<open>[RUH]\<close>
  before \<open>[UGC]\<close>, with the separators of the code's template.
\<close>

definition labelled_concatenation :: "string \<Rightarrow> string \<Rightarrow> string" where
  "labelled_concatenation ruhText ugcText =
     ''[RUH]'' @ NL @ ruhText @ NL @ NL @ ''[UGC]'' @ NL @ ugcText"

text \<open>A side's response text is missing or empty.\<close>

definition missing_or_empty :: "json \<Rightarrow> bool" where
  "missing_or_empty b =
     (get_prop b ''response'' = None \<or> get_prop b ''response'' = Some (JStr []))"

text \<open>
  The text of the placeholder for a failed call: \<open><SIDE> request failed: <status>\<close> for a
  status that is not ok, \<open><SIDE> request error: <message>\<close> for a thrown network error;
  \<open>None\<close> when the call did not fail in either way.
\<close>

definition failure_text :: "string \<Rightarrow> fetch_result \<Rightarrow> string option" where
  "failure_text side outcome =
     (case outcome of
        Rejects e \<Rightarrow> Some (side @ '' request error: '' @ e)
      | Resolves r \<Rightarrow>
          if ok r then None
          else Some (side @ '' request failed: '' @ Number_toString (status r)))"

text \<open>The same environment, except that the network gives \<open>outcome\<close> for the request \<open>q\<close>.\<close>

definition answering :: "env \<Rightarrow> request \<Rightarrow> fetch_result \<Rightarrow> env" where
  "answering env q outcome = env\<lparr>net := (net env)(q := outcome)\<rparr>"

subsection \<open>Reading the order of response handling off a trace\<close>

text \<open>The effects between two worlds of one run.\<close>

definition since :: "world \<Rightarrow> world \<Rightarrow> action list" where
  "since w w' = drop (length (trace w)) (trace w')"

text \<open>
  \<open>processed_first r t\<close>: the effects \<open>t\<close> that follow the arrival of the response \<open>r\<close>
  begin with its token rotation (the call, and the \<open>setItem\<close> it may make) and go on
  with its auth check. \<open>every_response_processed\<close>: that holds after every await whose
  promise resolves.
\<close>

fun auth_checked_first :: "response \<Rightarrow> action list \<Rightarrow> bool" where
  "auth_checked_first r (AuthCheck r' # t) = (r' = r)"
| "auth_checked_first r (SetItem x # t) = auth_checked_first r t"
| "auth_checked_first r t = False"

fun processed_first :: "response \<Rightarrow> action list \<Rightarrow> bool" where
  "processed_first r (UpdateToken r' # t) = (r' = r \<and> auth_checked_first r t)"
| "processed_first r t = False"

fun every_response_processed :: "env \<Rightarrow> action list \<Rightarrow> bool" where
  "every_response_processed env [] = True"
| "every_response_processed env (Await q # t) =
     ((case net env q of Rejects e \<Rightarrow> True | Resolves r \<Rightarrow> processed_first r t)
      \<and> every_response_processed env t)"
| "every_response_processed env (a # t) = every_response_processed env t"

text \<open>
  \<open>body_after_processing rotated checked t\<close>: every \<open>json()\<close> in \<open>t\<close> is on a response
  whose auth check came earlier, after its token rotation (\<open>rotated\<close> and \<open>checked\<close> are
  the responses rotated and checked so far).
\<close>

fun body_after_processing :: "response list \<Rightarrow> response list \<Rightarrow> action list \<Rightarrow> bool" where
  "body_after_processing rotated checked [] = True"
| "body_after_processing rotated checked (UpdateToken r # t) =
     body_after_processing (r # rotated) checked t"
| "body_after_processing rotated checked (AuthCheck r # t) =
     body_after_processing rotated (if r \<in> set rotated then r # checked else checked) t"
| "body_after_processing rotated checked (Json r # t) =
     (r \<in> set checked \<and> body_after_processing rotated checked t)"
| "body_after_processing rotated checked (a # t) = body_after_processing rotated checked t"

definition rotation_and_auth_first :: "env \<Rightarrow> action list \<Rightarrow> bool" where
  "rotation_and_auth_first env t =
     (every_response_processed env t \<and> body_after_processing [] [] t)"

section \<open>Basic facts\<close>

lemma trace_emit: "trace (emit a w) = trace w @ [a]"
  by (simp add: emit_def)

lemma auth_token_emit: "auth_token (emit a w) = auth_token w"
  by (simp add: emit_def)

lemma fetched_append: "fetched (xs @ ys) = fetched xs @ fetched ys"
  by (induction xs rule: fetched.induct) simp_all

lemma dispatched_append: "dispatched (xs @ ys) = dispatched xs @ dispatched ys"
  by (induction xs rule: dispatched.induct) simp_all

lemma fst_log_and_rethrow: "fst (log_and_rethrow label rw) = fst rw"
  by (cases rw) (simp add: log_and_rethrow_def split: sum.splits)

lemma auth_token_log_and_rethrow: "auth_token (snd (log_and_rethrow label rw)) = auth_token (snd rw)"
  by (cases rw) (simp add: log_and_rethrow_def auth_token_emit split: sum.splits)

lemma trace_log_and_rethrow:
  "trace (snd (log_and_rethrow label rw))
     = trace (snd rw) @ (case fst rw of Inl e \<Rightarrow> [ConsoleError label e] | Inr v \<Rightarrow> [])"
  by (cases rw) (simp add: log_and_rethrow_def trace_emit split: sum.splits)

subsection \<open>The identity lookup\<close>

lemma auth_token_after_lookup: "auth_token (after_lookup env w) = auth_token w"
  by (simp add: after_lookup_def fetchUserEmailFromProfile_def getAccessToken_def Let_def
      auth_token_emit split: option.splits fetch_result.splits sum.splits)



subsection \<open>Processing one response\<close>

lemma trace_update: "trace (updateAccessTokenFromResponse r w)
    = trace w @ trace (updateAccessTokenFromResponse r blank)"
  by (simp add: updateAccessTokenFromResponse_def blank_def Let_def trace_emit emit_def
      split: option.splits)

lemma trace_handle: "trace (handleAuthError env r w)
    = trace w @ trace (handleAuthError env r blank)"
  by (simp add: handleAuthError_def blank_def Let_def trace_emit emit_def)

lemma trace_process_response:
  "trace (process_response env r w) = trace w @ response_actions env r"
proof -
  have "trace (process_response env r w)
      = trace (updateAccessTokenFromResponse r w) @ trace (handleAuthError env r blank)"
    unfolding process_response_def by (rule trace_handle)
  also have "\<dots> = trace w @ (trace (updateAccessTokenFromResponse r blank)
      @ trace (handleAuthError env r blank))"
    by (subst trace_update) simp
  also have "trace (updateAccessTokenFromResponse r blank) @ trace (handleAuthError env r blank)
      = response_actions env r"
    unfolding response_actions_def process_response_def by (rule trace_handle [symmetric])
  finally show ?thesis .
qed

lemma auth_token_process_response:
  "auth_token (process_response env r w) = token_after env (Resolves r) (auth_token w)"
  by (simp add: token_after_def process_response_def handleAuthError_def
      updateAccessTokenFromResponse_def Let_def auth_token_emit emit_def split: option.splits)

subsection \<open>One side of \<open>sendMessage\<close>\<close>

lemma fst_await_side: "fst (await_side env label sid q w) = side_json env label sid q"
  by (simp add: side_json_def await_side_def Let_def split: fetch_result.splits sum.splits)

lemma trace_await_side:
  "trace (snd (await_side env label sid q w)) = trace w @ [Await q] @ handling env (net env q)"
  by (simp add: await_side_def handling_def Let_def trace_emit trace_process_response
      split: fetch_result.splits sum.splits)

lemma auth_token_await_side:
  "auth_token (snd (await_side env label sid q w)) = token_after env (net env q) (auth_token w)"
  by (simp add: await_side_def Let_def auth_token_emit auth_token_process_response
      split: fetch_result.splits sum.splits)
    (simp add: token_after_def)

lemma side_json_rejects:
  "net env q = Rejects e \<Longrightarrow>
     side_json env label sid q = placeholder (label @ '' request error: '' @ e) sid"
  by (simp add: side_json_def await_side_def Let_def)

lemma side_json_failed:
  "net env q = Resolves r \<Longrightarrow> \<not> ok r \<Longrightarrow>
     side_json env label sid q
       = placeholder (label @ '' request failed: '' @ Number_toString (status r)) sid"
  by (simp add: side_json_def await_side_def Let_def)

lemma side_json_unparsed:
  "net env q = Resolves r \<Longrightarrow> ok r \<Longrightarrow> payload r = Inl e \<Longrightarrow>
     side_json env label sid q = placeholder (label @ '' request error: '' @ e) sid"
  by (simp add: side_json_def await_side_def Let_def)


subsection \<open>\<open>sendMessage\<close> for an identity that is not an undergraduate\<close>

lemma sendMessage_unfold:
  "sendMessage env m s g flag w =
     log_and_rethrow ''Error sending message:''
       (sendMessage_try env (default_session s) (identity env w)
          (postBodyBase m (default_session s) (identity env w) g) flag (after_lookup env w))"
  by (simp add: sendMessage_def Let_def identity_def after_lookup_def case_prod_beta)

lemma sendMessage_try_value:
  assumes "\<not> isUndergraduate env u"
  shows "fst (sendMessage_try env sid u pb flag w)
     = combine
         (if flag = Some False then JNull
          else side_json env ''RUH'' sid (chat_request env ''ruh'' (auth_token w) pb))
         (if flag = Some True then JNull
          else side_json env ''UGC'' sid (chat_request env ''ugc'' (auth_token w) pb))
         sid"
  using assms
  by (cases flag)
    (simp_all add: sendMessage_try_def Let_def case_prod_beta getAccessToken_def
      auth_token_emit fst_await_side)

lemma sendMessage_value:
  assumes "\<not> isUndergraduate env (identity env w)"
  shows "fst (sendMessage env m s g flag w)
     = combine
         (if flag = Some False then JNull
          else side_json env ''RUH'' (default_session s) (ruh_request env m s g w))
         (if flag = Some True then JNull
          else side_json env ''UGC'' (default_session s) (ugc_request env m s g w))
         (default_session s)"
  using assms
  by (simp add: sendMessage_unfold fst_log_and_rethrow sendMessage_try_value
      ruh_request_def ugc_request_def auth_token_after_lookup)

lemma sendMessage_try_trace:
  assumes "\<not> isUndergraduate env u"
  shows "trace (snd (sendMessage_try env sid u pb flag w))
     = trace w
       @ (if flag = Some False then [] else [Fetch (chat_request env ''ruh'' (auth_token w) pb)])
       @ (if flag = Some True then [] else [Fetch (chat_request env ''ugc'' (auth_token w) pb)])
       @ (if flag = Some False then []
          else Await (chat_request env ''ruh'' (auth_token w) pb)
               # handling env (net env (chat_request env ''ruh'' (auth_token w) pb)))
       @ (if flag = Some True then []
          else Await (chat_request env ''ugc'' (auth_token w) pb)
               # handling env (net env (chat_request env ''ugc'' (auth_token w) pb)))"
  using assms
  by (cases flag)
    (simp_all add: sendMessage_try_def Let_def case_prod_beta getAccessToken_def
      auth_token_emit trace_emit trace_await_side)

subsection \<open>One checked call\<close>

lemma fst_call_json:
  "fst (call_json env q w)
     = (case net env q of
          Rejects e \<Rightarrow> Inl (Rejected e)
        | Resolves r \<Rightarrow>
            if \<not> ok r then Inl (Error (''HTTP error! status: '' @ Number_toString (status r)))
            else (case payload r of Inl e \<Rightarrow> Inl (Rejected e) | Inr v \<Rightarrow> Inr v))"
  by (simp add: call_json_def call_checked_def read_json_def Let_def
      split: fetch_result.splits sum.splits)

lemma trace_call_json:
  "trace (snd (call_json env q w)) = trace w @ [Fetch q, Await q] @ handling env (net env q)"
  by (simp add: call_json_def call_checked_def read_json_def handling_def Let_def trace_emit
      trace_process_response split: fetch_result.splits sum.splits)

lemma fetched_response_actions: "fetched (response_actions env r) = []"
  by (simp add: response_actions_def process_response_def handleAuthError_def
      updateAccessTokenFromResponse_def blank_def Let_def trace_emit emit_def
      split: option.splits)

lemma fetched_handling: "fetched (handling env outcome) = []"
  by (simp add: handling_def fetched_append fetched_response_actions split: fetch_result.splits)

text \<open>Unfolding the example environments and the requests built in them.\<close>

lemmas run_defs =
  example_env_def example_net_def reply_def profile_def offline_def signed_in_def
  chat_response_def identity_def after_lookup_def fetchUserEmailFromProfile_def
  getAccessToken_def me_request_def bearer_def emit_def ok_def Let_def
  ruh_request_def ugc_request_def chat_request_def postBodyBase_def default_session_def

text \<open>Unfolding a whole run of \<open>sendMessage\<close> on a concrete input.\<close>

lemmas send_defs =
  sendMessage_def sendMessage_try_def log_and_rethrow_def call_json_def call_checked_def
  read_json_def await_side_def process_response_def handleAuthError_def
  updateAccessTokenFromResponse_def combine_def placeholder_def NL_def
  Number_toString.simps digit_char_def

lemmas side_defs =
  side_json_def await_side_def blank_def process_response_def handleAuthError_def
  updateAccessTokenFromResponse_def

subsection \<open>The combination rule\<close>

lemma truthy_placeholder: "truthy (placeholder text sid)"
  by (simp add: placeholder_def)

lemma combine_ruh_only: "truthy v \<Longrightarrow> \<not> truthy u \<Longrightarrow> combine v u sid = Inr v"
  by (simp add: combine_def)

lemma combine_ugc_only: "truthy u \<Longrightarrow> \<not> truthy v \<Longrightarrow> combine v u sid = Inr u"
  by (simp add: combine_def)

lemma non_undergraduate_endpoint_selection:
  assumes "\<not> isUndergraduate env (identity env w)"
  shows "fetched (trace (snd (sendMessage env m s g flag w)))
           = fetched (trace (after_lookup env w))
             @ (case flag of
                  None \<Rightarrow> [ruh_request env m s g w, ugc_request env m s g w]
                | Some True \<Rightarrow> [ruh_request env m s g w]
                | Some False \<Rightarrow> [ugc_request env m s g w])"
  using assms
  by (simp add: sendMessage_unfold trace_log_and_rethrow sendMessage_try_trace fetched_append
      fetched_handling ruh_request_def ugc_request_def auth_token_after_lookup
      split: sum.splits option.splits bool.splits)

lemma combine_both:
  assumes "get_prop b1 ''response'' = Some (JStr rt)"
    and "get_prop b1 ''conversation_history'' = Some (JArr rh)"
    and "get_prop b1 ''session_id'' = Some (JStr rs)"
    and "get_prop b2 ''response'' = Some (JStr ut)"
    and "get_prop b2 ''conversation_history'' = Some (JArr uh)"
    and "get_prop b2 ''session_id'' = Some (JStr us)"
  shows "combine b1 b2 sid
     = Inr (chat_response
         (labelled_concatenation (if rt = [] then ''(no response)'' else rt)
                                 (if ut = [] then ''(no response)'' else ut))
         (rh @ uh)
         (if rs \<noteq> [] then rs else if us \<noteq> [] then us else sid))"
proof -
  obtain k1 k2 where "b1 = JObj k1" "b2 = JObj k2"
    using assms(1,4) by (cases b1; cases b2) simp_all
  then show ?thesis using assms
    by (simp add: combine_def chat_response_def labelled_concatenation_def)
qed

lemma or_js_missing_or_empty:
  "missing_or_empty b \<Longrightarrow> or_js (get_prop b ''response'') (JStr ''(no response)'') = JStr ''(no response)''"
  by (auto simp: missing_or_empty_def)

lemma combine_response:
  assumes "truthy b1 = truthy b2" and "combine b1 b2 sid = Inr v"
  shows "get_prop v ''response''
     = Some (JStr (labelled_concatenation
         (js_String (or_js (get_prop b1 ''response'') (JStr ''(no response)'')))
         (js_String (or_js (get_prop b2 ''response'') (JStr ''(no response)'')))))"
  using assms
  by (auto simp: combine_def labelled_concatenation_def Let_def split: sum.splits if_splits)

lemma labelled_left_differs:
  "labelled_concatenation ''(no response)'' t \<noteq> labelled_concatenation [] t'"
  by (simp add: labelled_concatenation_def NL_def)

lemma labelled_right_differs:
  "labelled_concatenation t ''(no response)'' \<noteq> labelled_concatenation t' []"
proof
  assume "labelled_concatenation t ''(no response)'' = labelled_concatenation t' []"
  then have "last (labelled_concatenation t ''(no response)'') = last (labelled_concatenation t' [])"
    by simp
  then show False
    by (simp add: labelled_concatenation_def NL_def)
qed

subsection \<open>Changing what the network answers to one request\<close>

lemma net_answering:
  "net (answering env q x) q' = (if q' = q then x else net env q')"
  by (simp add: answering_def)

lemma answering_fields:
  "Auth_Base_URL (answering env q x) = Auth_Base_URL env"
  "Guidance_Base_URL (answering env q x) = Guidance_Base_URL env"
  "isUndergraduate (answering env q x) = isUndergraduate env"
  "removeItem_throws (answering env q x) = removeItem_throws env"
  "CustomEvent_throws (answering env q x) = CustomEvent_throws env"
  by (simp_all add: answering_def)

lemma me_request_answering: "me_request (answering env q x) t = me_request env t"
  by (simp add: me_request_def answering_fields)

lemma me_request_is_get: "http_method (me_request env t) = ''GET''"
  by (simp add: me_request_def)

lemma lookup_answering:
  assumes "http_method q = ''POST''"
  shows "fetchUserEmailFromProfile (answering env q x) w = fetchUserEmailFromProfile env w"
proof -
  have "me_request env t \<noteq> q" for t
    using assms me_request_is_get [of env t] by auto
  then show ?thesis
    by (simp add: fetchUserEmailFromProfile_def me_request_answering net_answering Let_def
        split: option.splits)
qed

lemma chat_request_answering:
  "chat_request (answering env q x) side t pb = chat_request env side t pb"
  by (simp add: chat_request_def answering_fields)

lemma chat_request_is_post: "http_method (chat_request env side t pb) = ''POST''"
  by (simp add: chat_request_def)

lemma ruh_is_not_ugc: "chat_request env ''ruh'' t pb \<noteq> chat_request env ''ugc'' t' pb'"
  by (simp add: chat_request_def)

lemma side_json_answering_same:
  "side_json (answering env q (reply 200 v)) label sid q = v"
  by (simp add: side_json_def await_side_def net_answering reply_def ok_def Let_def)

lemma side_json_answering_other:
  "q' \<noteq> q \<Longrightarrow> side_json (answering env q x) label sid q' = side_json env label sid q'"
  by (simp add: side_json_def await_side_def net_answering Let_def
      split: fetch_result.splits sum.splits)

lemma side_json_failure_text:
  "failure_text label (net env q) = Some t \<Longrightarrow> side_json env label sid q = placeholder t sid"
  by (auto simp: failure_text_def side_json_rejects side_json_failed
      split: fetch_result.splits if_splits)

lemma identity_answering:
  "http_method q = ''POST'' \<Longrightarrow> identity (answering env q x) w = identity env w"
  by (simp add: identity_def lookup_answering)

lemma ruh_request_answering:
  "http_method q = ''POST'' \<Longrightarrow>
     ruh_request (answering env q x) m s g w = ruh_request env m s g w"
  by (simp add: ruh_request_def chat_request_answering identity_answering)

lemma ugc_request_answering:
  "http_method q = ''POST'' \<Longrightarrow>
     ugc_request (answering env q x) m s g w = ugc_request env m s g w"
  by (simp add: ugc_request_def chat_request_answering identity_answering)

lemma ruh_request_is_post: "http_method (ruh_request env m s g w) = ''POST''"
  by (simp add: ruh_request_def chat_request_is_post)

lemma ugc_request_is_post: "http_method (ugc_request env m s g w) = ''POST''"
  by (simp add: ugc_request_def chat_request_is_post)

lemma ruh_request_is_not_ugc_request: "ruh_request env m s g w \<noteq> ugc_request env m s g w"
  by (simp add: ruh_request_def ugc_request_def ruh_is_not_ugc)

subsection \<open>The effects of handling one response\<close>

lemma response_actions_shape:
  "response_actions env r
     = UpdateToken r
       # (case x_access_token r of
            None \<Rightarrow> []
          | Some t \<Rightarrow> if t \<noteq> [] then [SetItem t] else [])
       @ AuthCheck r
       # (if status r = 401 \<or> status r = 403
          then [RemoveItem,
                DispatchEvent \<lparr>ev_type = ''auth:logout'', bubbles = CustomEvent_throws env,
                  cancelable = CustomEvent_throws env, detail_status = status r\<rparr>]
          else [])"
  by (simp add: response_actions_def process_response_def handleAuthError_def
      updateAccessTokenFromResponse_def blank_def Let_def emit_def split: option.splits)

lemma sendMessage_try_token:
  assumes "\<not> isUndergraduate env u"
  shows "auth_token (snd (sendMessage_try env sid u pb None w))
     = token_after env (net env (chat_request env ''ugc'' (auth_token w) pb))
         (token_after env (net env (chat_request env ''ruh'' (auth_token w) pb)) (auth_token w))"
  using assms
  by (simp add: sendMessage_try_def Let_def case_prod_beta getAccessToken_def
      auth_token_emit auth_token_await_side)

subsection \<open>Rotation and auth check come first\<close>

lemma since_append: "trace w' = trace w @ t \<Longrightarrow> since w w' = t"
  by (simp add: since_def)

lemma processed_first_response_actions: "processed_first r (response_actions env r @ rest)"
  by (simp add: response_actions_shape split: option.splits)

lemma every_response_processed_response_actions:
  "every_response_processed env (response_actions env r @ rest) = every_response_processed env rest"
  by (simp add: response_actions_shape split: option.splits)

lemma body_after_processing_response_actions:
  "body_after_processing rotated checked (response_actions env r @ rest)
     = body_after_processing (r # rotated) (r # checked) rest"
  by (simp add: response_actions_shape split: option.splits)

lemma every_response_processed_await:
  "every_response_processed env (Await q # handling env (net env q) @ rest)
     = every_response_processed env rest"
  by (simp add: handling_def processed_first_response_actions
      every_response_processed_response_actions split: fetch_result.splits)

lemma body_after_processing_handling:
  "body_after_processing rotated checked rest \<Longrightarrow>
     (\<And>r. body_after_processing (r # rotated) (r # checked) rest) \<Longrightarrow>
     body_after_processing rotated checked (handling env outcome @ rest)"
  by (simp add: handling_def body_after_processing_response_actions split: fetch_result.splits)

lemma console_tail [simp]:
  "every_response_processed env (case x of Inl e \<Rightarrow> [ConsoleError l e] | Inr v \<Rightarrow> [])"
  "body_after_processing rotated checked (case x of Inl e \<Rightarrow> [ConsoleError l e] | Inr v \<Rightarrow> [])"
  by (simp_all split: sum.splits)

lemma every_response_processed_fetch:
  "every_response_processed env (Fetch q # t) = every_response_processed env t"
  by simp

lemma one_call_processed:
  "rotation_and_auth_first env
     ([Fetch q, Await q] @ handling env (net env q)
      @ (case x of Inl e \<Rightarrow> [ConsoleError l e] | Inr v \<Rightarrow> []))"
proof -
  have "every_response_processed env
     (Fetch q # Await q # handling env (net env q)
      @ (case x of Inl e \<Rightarrow> [ConsoleError l e] | Inr v \<Rightarrow> []))"
    by (simp only: every_response_processed_fetch every_response_processed_await console_tail)
  moreover have "body_after_processing [] []
     (Fetch q # Await q # handling env (net env q)
      @ (case x of Inl e \<Rightarrow> [ConsoleError l e] | Inr v \<Rightarrow> []))"
    by (simp add: body_after_processing_handling)
  ultimately show ?thesis
    by (simp add: rotation_and_auth_first_def)
qed

lemma trace_call_json_logged:
  "trace (snd (log_and_rethrow l (call_json env q w)))
     = trace w @ [Fetch q, Await q] @ handling env (net env q)
       @ (case fst (call_json env q w) of Inl e \<Rightarrow> [ConsoleError l e] | Inr v \<Rightarrow> [])"
  by (simp add: trace_log_and_rethrow trace_call_json)

lemma call_json_logged_processed:
  "rotation_and_auth_first env (since w (snd (log_and_rethrow l (call_json env q w))))"
  by (simp only: since_append [OF trace_call_json_logged] one_call_processed)


lemma trace_call_checked:
  "trace (snd (call_checked env q w))
     = trace w @ [Fetch q, Await q]
       @ (case net env q of Rejects e \<Rightarrow> [] | Resolves r \<Rightarrow> response_actions env r)"
  by (simp add: call_checked_def Let_def trace_emit trace_process_response
      split: fetch_result.splits)

lemma sendFeedback_trace:
  "trace (snd (sendFeedback env sid i f u w))
     = trace w @ [Fetch (feedback_request env sid i f u (auth_token w)),
                  Await (feedback_request env sid i f u (auth_token w))]
       @ (case net env (feedback_request env sid i f u (auth_token w)) of
            Rejects e \<Rightarrow> [] | Resolves r \<Rightarrow> response_actions env r)
       @ (case fst (sendFeedback env sid i f u w) of
            Inl e \<Rightarrow> [ConsoleError ''Error sending feedback:'' e] | Inr v \<Rightarrow> [])"
  by (cases "call_checked env (feedback_request env sid i f u (auth_token w)) w")
    (use trace_call_checked [of env "feedback_request env sid i f u (auth_token w)" w] in
      \<open>auto simp: sendFeedback_def log_and_rethrow_def trace_emit getAccessToken_def
         split: sum.splits\<close>)

lemma checked_call_processed:
  "rotation_and_auth_first env
     ([Fetch q, Await q]
      @ (case net env q of Rejects e \<Rightarrow> [] | Resolves r \<Rightarrow> response_actions env r)
      @ (case x of Inl e \<Rightarrow> [ConsoleError l e] | Inr v \<Rightarrow> []))"
  by (simp add: rotation_and_auth_first_def processed_first_response_actions
      every_response_processed_response_actions body_after_processing_response_actions
      split: fetch_result.splits)

lemma sendFeedback_processed:
  "rotation_and_auth_first env (since w (snd (sendFeedback env sid i f u w)))"
  by (simp only: since_append [OF sendFeedback_trace] checked_call_processed)

lemma sides_processed:
  "rotation_and_auth_first env
     ((if flag = Some False then [] else [Fetch a])
      @ (if flag = Some True then [] else [Fetch b])
      @ (if flag = Some False then [] else Await a # handling env (net env a))
      @ (if flag = Some True then [] else Await b # handling env (net env b))
      @ (case x of Inl e \<Rightarrow> [ConsoleError l e] | Inr v \<Rightarrow> []))"
proof -
  have "every_response_processed env
     ((if flag = Some False then [] else [Fetch a])
      @ (if flag = Some True then [] else [Fetch b])
      @ (if flag = Some False then [] else Await a # handling env (net env a))
      @ (if flag = Some True then [] else Await b # handling env (net env b))
      @ (case x of Inl e \<Rightarrow> [ConsoleError l e] | Inr v \<Rightarrow> []))"
    by (simp add: every_response_processed_await
        every_response_processed_await [where rest = "[]", simplified]
        del: every_response_processed.simps(2))
  moreover have "body_after_processing [] []
     ((if flag = Some False then [] else [Fetch a])
      @ (if flag = Some True then [] else [Fetch b])
      @ (if flag = Some False then [] else Await a # handling env (net env a))
      @ (if flag = Some True then [] else Await b # handling env (net env b))
      @ (case x of Inl e \<Rightarrow> [ConsoleError l e] | Inr v \<Rightarrow> []))"
    by (simp add: body_after_processing_handling
        body_after_processing_handling [where rest = "[]", simplified])
  ultimately show ?thesis
    by (simp add: rotation_and_auth_first_def)
qed

lemma sendMessage_processed:
  "rotation_and_auth_first env (since (after_lookup env w) (snd (sendMessage env m s g flag w)))"
proof (cases "isUndergraduate env (identity env w)")
  case True
  then have "sendMessage env m s g flag w
      = log_and_rethrow ''Error sending message:''
          (call_json env (ruh_request env m s g w) (after_lookup env w))"
    by (simp add: sendMessage_unfold sendMessage_try_def ruh_request_def getAccessToken_def
        auth_token_after_lookup)
  then show ?thesis
    by (simp only: call_json_logged_processed)
next
  case False
  let ?a = "chat_request env ''ruh'' (auth_token (after_lookup env w))
              (postBodyBase m (default_session s) (identity env w) g)"
  let ?b = "chat_request env ''ugc'' (auth_token (after_lookup env w))
              (postBodyBase m (default_session s) (identity env w) g)"
  have "trace (snd (sendMessage env m s g flag w))
      = trace (after_lookup env w)
        @ ((if flag = Some False then [] else [Fetch ?a])
           @ (if flag = Some True then [] else [Fetch ?b])
           @ (if flag = Some False then [] else Await ?a # handling env (net env ?a))
           @ (if flag = Some True then [] else Await ?b # handling env (net env ?b))
           @ (case fst (sendMessage env m s g flag w) of
                Inl e \<Rightarrow> [ConsoleError ''Error sending message:'' e] | Inr v \<Rightarrow> []))"
    by (simp add: sendMessage_unfold trace_log_and_rethrow fst_log_and_rethrow
        sendMessage_try_trace [OF False])
  then show ?thesis
    by (simp only: since_append sides_processed)
qed

lemma createNewChatSession_processed:
  "rotation_and_auth_first env
     (since (snd (resolve_user env u w)) (snd (createNewChatSession env u w)))"
  by (simp add: createNewChatSession_def case_prod_beta call_json_logged_processed)

lemma thrown_processed:
  "rotation_and_auth_first env (since w (snd (log_and_rethrow l (Inl e, w))))"
  by (simp add: log_and_rethrow_def since_def trace_emit rotation_and_auth_first_def)

lemma getChatHistory_processed:
  "rotation_and_auth_first env
     (since (snd (resolve_user env u w)) (snd (getChatHistory env sid u w)))"
  by (simp add: getChatHistory_def Let_def case_prod_beta call_json_logged_processed
      thrown_processed split: sum.splits)

lemma healthCheck_processed:
  "rotation_and_auth_first env (since w (snd (healthCheck env w)))"
  by (simp add: healthCheck_def call_json_logged_processed)

lemma getChatSessions_processed:
  "rotation_and_auth_first env
     (since (snd (resolve_user env u w)) (snd (getChatSessions env u w)))"
  by (simp add: getChatSessions_def case_prod_beta call_json_logged_processed
      thrown_processed split: sum.splits)

lemma routeLatest_processed:
  "rotation_and_auth_first env
     (since (snd (resolve_user env u w)) (snd (routeLatest env sid u w)))"
  by (simp add: routeLatest_def Let_def case_prod_beta call_json_logged_processed
      thrown_processed split: sum.splits)

lemma dispatched_after_lookup: "dispatched (trace (after_lookup env w)) = dispatched (trace w)"
  by (simp add: after_lookup_def fetchUserEmailFromProfile_def Let_def trace_emit
      dispatched_append split: option.splits fetch_result.splits sum.splits)

subsection \<open>The requests of the forwarding operations\<close>






lemma fetched_after_lookup:
  "fetched (trace (after_lookup env w))
     = fetched (trace w)
       @ (case auth_token w of
            None \<Rightarrow> []
          | Some token \<Rightarrow> if token = [] then [] else [me_request env token])"
  by (simp add: after_lookup_def fetchUserEmailFromProfile_def getAccessToken_def Let_def
      trace_emit fetched_append split: option.splits fetch_result.splits sum.splits)

section \<open>Auth failure: clearing the token and broadcasting\<close>

text \<open>
  Claim C5. Every method of \<open>ApiService\<close> passes a response through
  \<open>updateAccessTokenFromResponse\<close> and then \<open>handleAuthError\<close>. For every response whose
  status is 401 or 403, whatever the token stored before and whether or not the response
  carried an \<open>x-access-token\<close> header that was stored first: the stored token is unset
  afterwards unless \<open>removeItem\<close> itself threw, and exactly one \<open>auth:logout\<close> event with
  the status as its detail is broadcast, also when \<open>removeItem\<close> threw. When
  \<open>new CustomEvent\<close> throws, the event still goes out, built by the fallback
  (\<open>initCustomEvent\<close> with \<open>bubbles\<close> and \<open>cancelable\<close> set).
\<close>

theorem auth_failure_clears_token_and_broadcasts:
  assumes "status r = 401 \<or> status r = 403"
  shows "(\<not> removeItem_throws env \<longrightarrow> auth_token (process_response env r w) = None)
       \<and> dispatched (trace (process_response env r w))
           = dispatched (trace w)
             @ [\<lparr>ev_type = ''auth:logout'', bubbles = CustomEvent_throws env,
                 cancelable = CustomEvent_throws env, detail_status = status r\<rparr>]"
  using assms
  by (auto simp: process_response_def handleAuthError_def updateAccessTokenFromResponse_def
      trace_emit auth_token_emit dispatched_append Let_def split: option.splits)

text \<open>
  A response with header \<open>x-access-token: T2\<close> and status 403, in a world that stores
  \<open>T1\<close>: no token is left and the event carries 403. With status 401 and both guarded calls
  throwing, the event is the fallback's.
\<close>

theorem auth_failure_clears_token_and_broadcasts_witness:
  "auth_token (process_response (example_env offline offline offline offline)
       \<lparr>status = 403, x_access_token = Some ''T2'', payload = Inr JNull\<rparr> signed_in) = None
   \<and> dispatched (trace (process_response (example_env offline offline offline offline)
       \<lparr>status = 403, x_access_token = Some ''T2'', payload = Inr JNull\<rparr> signed_in))
     = [\<lparr>ev_type = ''auth:logout'', bubbles = False, cancelable = False, detail_status = 403\<rparr>]
   \<and> dispatched (trace (process_response
       ((example_env offline offline offline offline)
          \<lparr>removeItem_throws := True, CustomEvent_throws := True\<rparr>)
       \<lparr>status = 401, x_access_token = None, payload = Inr JNull\<rparr> signed_in))
     = [\<lparr>ev_type = ''auth:logout'', bubbles = True, cancelable = True, detail_status = 401\<rparr>]"
  using auth_failure_clears_token_and_broadcasts
      [of "\<lparr>status = 403, x_access_token = Some ''T2'', payload = Inr JNull\<rparr>"
          "example_env offline offline offline offline" signed_in]
    auth_failure_clears_token_and_broadcasts
      [of "\<lparr>status = 401, x_access_token = None, payload = Inr JNull\<rparr>"
          "(example_env offline offline offline offline)
             \<lparr>removeItem_throws := True, CustomEvent_throws := True\<rparr>" signed_in]
  by (simp add: example_env_def signed_in_def)

section \<open>Undergraduates: one call, to RUH\<close>

text \<open>
  Claim C2. For every identity that the classifier calls an undergraduate, and every value of
  \<open>onlyUseRuh\<close>, the requests that \<open>sendMessage\<close> dispatches are those of the identity
  lookup followed by exactly one, the POST to \<open>/ruh/chat\<close>. When its response has a status
  that is not ok, \<open>sendMessage\<close> throws \<open>Error("HTTP error! status: <status>")\<close>; when
  the status is ok and the body parses, it returns the parsed body unchanged.
\<close>

theorem undergraduate_calls_ruh_only:
  assumes "isUndergraduate env (identity env w)"
  shows "fetched (trace (snd (sendMessage env m s g flag w)))
           = fetched (trace (after_lookup env w)) @ [ruh_request env m s g w]
       \<and> url (ruh_request env m s g w) = Guidance_Base_URL env @ ''/ruh/chat''
       \<and> (\<forall>r. net env (ruh_request env m s g w) = Resolves r \<and> \<not> ok r \<longrightarrow>
             fst (sendMessage env m s g flag w)
               = Inl (Error (''HTTP error! status: '' @ Number_toString (status r))))
       \<and> (\<forall>r v. net env (ruh_request env m s g w) = Resolves r \<and> ok r \<and> payload r = Inr v \<longrightarrow>
             fst (sendMessage env m s g flag w) = Inr v)"
proof -
  let ?q = "ruh_request env m s g w"
  have run: "sendMessage env m s g flag w
      = log_and_rethrow ''Error sending message:'' (call_json env ?q (after_lookup env w))"
    using assms
    by (simp add: sendMessage_unfold sendMessage_try_def ruh_request_def getAccessToken_def
        auth_token_after_lookup)
  have "fetched (trace (snd (sendMessage env m s g flag w)))
      = fetched (trace (after_lookup env w)) @ [?q]"
    by (simp add: run trace_log_and_rethrow trace_call_json fetched_append fetched_handling
        split: sum.splits)
  moreover have "url ?q = Guidance_Base_URL env @ ''/ruh/chat''"
    by (simp add: ruh_request_def chat_request_def)
  moreover have "\<forall>r. net env ?q = Resolves r \<and> \<not> ok r \<longrightarrow>
      fst (sendMessage env m s g flag w)
        = Inl (Error (''HTTP error! status: '' @ Number_toString (status r)))"
    by (simp add: run fst_log_and_rethrow fst_call_json)
  moreover have "\<forall>r v. net env ?q = Resolves r \<and> ok r \<and> payload r = Inr v \<longrightarrow>
      fst (sendMessage env m s g flag w) = Inr v"
    by (simp add: run fst_log_and_rethrow fst_call_json)
  ultimately show ?thesis by blast
qed

text \<open>
  An undergraduate who asks for UGC only (\<open>onlyUseRuh = false\<close>) is still sent to RUH, and
  gets the body as it came.
\<close>

theorem undergraduate_calls_ruh_only_witness:
  "isUndergraduate (example_env (profile ''ug@uni'') (reply 200 (chat_response ''hello'' [] ''s1''))
        offline offline)
     (identity (example_env (profile ''ug@uni'') (reply 200 (chat_response ''hello'' [] ''s1''))
        offline offline) signed_in)
   \<and> fetched (trace (snd (sendMessage
        (example_env (profile ''ug@uni'') (reply 200 (chat_response ''hello'' [] ''s1''))
           offline offline) ''hi'' None None (Some False) signed_in)))
     = [\<lparr>http_method = ''GET'', url = ''A/auth/me'',
         headers = [(''Authorization'', ''Bearer T1''), (''Content-Type'', ''application/json'')],
         body = None\<rparr>,
        \<lparr>http_method = ''POST'', url = ''G/ruh/chat'',
         headers = [(''Content-Type'', ''application/json''), (''Authorization'', ''Bearer T1'')],
         body = Some (JObj [(''message'', JStr ''hi''), (''session_id'', JStr ''default''),
                            (''user_id'', JStr ''ug@uni'')])\<rparr>]
   \<and> fst (sendMessage
        (example_env (profile ''ug@uni'') (reply 200 (chat_response ''hello'' [] ''s1''))
           offline offline) ''hi'' None None (Some False) signed_in)
     = Inr (chat_response ''hello'' [] ''s1'')"
  using undergraduate_calls_ruh_only
    [of "example_env (profile ''ug@uni'') (reply 200 (chat_response ''hello'' [] ''s1''))
           offline offline" signed_in "''hi''" None None "Some False"]
  by (simp add: run_defs)

section \<open>Non-undergraduates: which endpoints, and what an unselected side contributes\<close>

text \<open>
  Claim C1. The selection itself is as claimed (\<open>non_undergraduate_endpoint_selection\<close>
  above): both requests when \<open>onlyUseRuh\<close> is undefined, RUH only when it is true, UGC only
  when it is false. What the claim says of the result does not hold on every input: the
  module takes a side to have a result when its value is truthy. A staff member asks for
  RUH only and RUH answers 200 with the JSON body \<open>null\<close>. Only \<open>/ruh/chat\<close> is called,
  yet neither \<open>if\<close> of the selection applies and the combined form is returned, with a
  \<open>[UGC]\<close> section holding \<open>(no response)\<close> for the side that was never requested.
\<close>

theorem sole_side_with_falsy_body_is_combined:
  "\<not> isUndergraduate (example_env (profile ''staff@uni'') (reply 200 JNull) offline offline)
       (identity (example_env (profile ''staff@uni'') (reply 200 JNull) offline offline) signed_in)
   \<and> map url (fetched (trace (snd (sendMessage
        (example_env (profile ''staff@uni'') (reply 200 JNull) offline offline)
        ''hi'' None None (Some True) signed_in))))
     = [''A/auth/me'', ''G/ruh/chat'']
   \<and> fst (sendMessage (example_env (profile ''staff@uni'') (reply 200 JNull) offline offline)
        ''hi'' None None (Some True) signed_in)
     = Inr (chat_response
         (''[RUH]'' @ NL @ ''(no response)'' @ NL @ NL @ ''[UGC]'' @ NL @ ''(no response)'')
         [] ''default'')"
  by (simp add: run_defs send_defs)

section \<open>The combined response\<close>

text \<open>
  Claim C3, as stated, at an empty text. RUH answers with the text \<open>""\<close> and UGC with
  \<open>ok\<close>. The response is not the two texts under their headers: \<open>(no response)\<close> stands
  where the RUH text would be.
\<close>

theorem empty_text_is_not_concatenated_counterexample:
  "fst (sendMessage
      (example_env (profile ''staff@uni'') (reply 200 (chat_response [] [JStr ''q1''] ''s1''))
         (reply 200 (chat_response ''ok'' [JStr ''q2''] ''s2'')) offline)
      ''hi'' None None None signed_in)
     = Inr (chat_response (labelled_concatenation ''(no response)'' ''ok'')
              [JStr ''q1'', JStr ''q2''] ''s1'')
   \<and> fst (sendMessage
      (example_env (profile ''staff@uni'') (reply 200 (chat_response [] [JStr ''q1''] ''s1''))
         (reply 200 (chat_response ''ok'' [JStr ''q2''] ''s2'')) offline)
      ''hi'' None None None signed_in)
     \<noteq> Inr (chat_response (labelled_concatenation [] ''ok'') [JStr ''q1'', JStr ''q2''] ''s1'')"
  by (simp add: run_defs send_defs labelled_concatenation_def)

text \<open>
  Claim C3, amended. For an identity that is not an undergraduate and \<open>onlyUseRuh\<close>
  undefined, when both sides have a value with a text \<open>response\<close>, an array
  \<open>conversation_history\<close> and a text \<open>session_id\<close> (a body of that shape, or a
  placeholder): \<open>response\<close> is the RUH text then the UGC text under the headers \<open>[RUH]\<close>
  and \<open>[UGC]\<close>, an empty text being replaced by \<open>(no response)\<close>;
  \<open>conversation_history\<close> is the RUH history followed by the UGC history; and
  \<open>session_id\<close> is the first non-empty of the RUH session id, the UGC session id and the
  session id of the call.
\<close>

theorem combined_response_fields:
  assumes "\<not> isUndergraduate env (identity env w)"
    and "side_json env ''RUH'' (default_session s) (ruh_request env m s g w) = b1"
    and "side_json env ''UGC'' (default_session s) (ugc_request env m s g w) = b2"
    and "get_prop b1 ''response'' = Some (JStr rt)"
    and "get_prop b1 ''conversation_history'' = Some (JArr rh)"
    and "get_prop b1 ''session_id'' = Some (JStr rs)"
    and "get_prop b2 ''response'' = Some (JStr ut)"
    and "get_prop b2 ''conversation_history'' = Some (JArr uh)"
    and "get_prop b2 ''session_id'' = Some (JStr us)"
  shows "fst (sendMessage env m s g None w)
     = Inr (chat_response
         (labelled_concatenation (if rt = [] then ''(no response)'' else rt)
                                 (if ut = [] then ''(no response)'' else ut))
         (rh @ uh)
         (if rs \<noteq> [] then rs else if us \<noteq> [] then us else default_session s))"
  using assms(2-) by (simp add: sendMessage_value [OF assms(1)] combine_both)

text \<open>RUH answers without a session id and UGC without a text.\<close>

theorem combined_response_fields_witness:
  "\<not> isUndergraduate
       (example_env (profile ''staff@uni'') (reply 200 (chat_response ''yes'' [JStr ''q1''] []))
          (reply 200 (chat_response [] [JStr ''q2''] ''s2'')) offline)
       (identity
          (example_env (profile ''staff@uni'') (reply 200 (chat_response ''yes'' [JStr ''q1''] []))
             (reply 200 (chat_response [] [JStr ''q2''] ''s2'')) offline) signed_in)
   \<and> side_json
        (example_env (profile ''staff@uni'') (reply 200 (chat_response ''yes'' [JStr ''q1''] []))
           (reply 200 (chat_response [] [JStr ''q2''] ''s2'')) offline)
        ''RUH'' ''default''
        (ruh_request
           (example_env (profile ''staff@uni'')
              (reply 200 (chat_response ''yes'' [JStr ''q1''] []))
              (reply 200 (chat_response [] [JStr ''q2''] ''s2'')) offline)
           ''hi'' None None signed_in)
     = chat_response ''yes'' [JStr ''q1''] []
   \<and> fst (sendMessage
        (example_env (profile ''staff@uni'') (reply 200 (chat_response ''yes'' [JStr ''q1''] []))
           (reply 200 (chat_response [] [JStr ''q2''] ''s2'')) offline)
        ''hi'' None None None signed_in)
     = Inr (chat_response (labelled_concatenation ''yes'' ''(no response)'')
              [JStr ''q1'', JStr ''q2''] ''s2'')"
  using combined_response_fields
    [of "example_env (profile ''staff@uni'') (reply 200 (chat_response ''yes'' [JStr ''q1''] []))
           (reply 200 (chat_response [] [JStr ''q2''] ''s2'')) offline"
        signed_in None "''hi''" None "chat_response ''yes'' [JStr ''q1''] []"
        "chat_response [] [JStr ''q2''] ''s2''" "''yes''" "[JStr ''q1'']" "[]"
        "[]" "[JStr ''q2'']" "''s2''"]
  by (simp add: run_defs side_defs)

section \<open>A failed call becomes a placeholder\<close>

text \<open>
  Claim C4. For an identity that is not an undergraduate, and each side: when the side's call
  fails, with a status that is not ok or with a rejected \<open>fetch\<close>, so that the placeholder
  text is \<open><SIDE> request failed: <status>\<close> or \<open><SIDE> request error: <message>\<close>,
  then \<open>sendMessage\<close> returns the placeholder
  \<open>{response: text, conversation_history: [], session_id: sessionId}\<close> itself when that
  side alone is selected, and for every \<open>onlyUseRuh\<close> it returns what it would return
  had the side answered 200 with the placeholder as its body.
\<close>

theorem failed_call_becomes_placeholder:
  assumes "\<not> isUndergraduate env (identity env w)"
  shows "(\<forall>t. failure_text ''RUH'' (net env (ruh_request env m s g w)) = Some t \<longrightarrow>
            (flag = Some True \<longrightarrow>
               fst (sendMessage env m s g flag w) = Inr (placeholder t (default_session s)))
          \<and> fst (sendMessage env m s g flag w)
              = fst (sendMessage
                  (answering env (ruh_request env m s g w)
                     (reply 200 (placeholder t (default_session s))))
                  m s g flag w))
       \<and> (\<forall>t. failure_text ''UGC'' (net env (ugc_request env m s g w)) = Some t \<longrightarrow>
            (flag = Some False \<longrightarrow>
               fst (sendMessage env m s g flag w) = Inr (placeholder t (default_session s)))
          \<and> fst (sendMessage env m s g flag w)
              = fst (sendMessage
                  (answering env (ugc_request env m s g w)
                     (reply 200 (placeholder t (default_session s))))
                  m s g flag w))"
proof (intro conjI allI impI)
  fix t
  assume t: "failure_text ''RUH'' (net env (ruh_request env m s g w)) = Some t"
  let ?q = "ruh_request env m s g w"
  let ?env' = "answering env ?q (reply 200 (placeholder t (default_session s)))"
  have side: "side_json env ''RUH'' (default_session s) ?q = placeholder t (default_session s)"
    using t by (rule side_json_failure_text)
  show "fst (sendMessage env m s g flag w) = Inr (placeholder t (default_session s))"
    if "flag = Some True"
    using that
    by (simp add: sendMessage_value [OF assms] side combine_ruh_only truthy_placeholder)
  have nonug: "\<not> isUndergraduate ?env' (identity ?env' w)"
    using assms by (simp add: identity_answering ruh_request_is_post answering_fields)
  have other: "ugc_request env m s g w \<noteq> ?q"
    using ruh_request_is_not_ugc_request [of env m s g w] by simp
  show "fst (sendMessage env m s g flag w) = fst (sendMessage ?env' m s g flag w)"
    by (simp add: sendMessage_value [OF assms] sendMessage_value [OF nonug]
        ruh_request_answering ugc_request_answering ruh_request_is_post side
        side_json_answering_same side_json_answering_other [OF other])
next
  fix t
  assume t: "failure_text ''UGC'' (net env (ugc_request env m s g w)) = Some t"
  let ?q = "ugc_request env m s g w"
  let ?env' = "answering env ?q (reply 200 (placeholder t (default_session s)))"
  have side: "side_json env ''UGC'' (default_session s) ?q = placeholder t (default_session s)"
    using t by (rule side_json_failure_text)
  show "fst (sendMessage env m s g flag w) = Inr (placeholder t (default_session s))"
    if "flag = Some False"
    using that
    by (simp add: sendMessage_value [OF assms] side combine_ugc_only truthy_placeholder)
  have nonug: "\<not> isUndergraduate ?env' (identity ?env' w)"
    using assms by (simp add: identity_answering ugc_request_is_post answering_fields)
  have other: "ruh_request env m s g w \<noteq> ?q"
    by (rule ruh_request_is_not_ugc_request)
  show "fst (sendMessage env m s g flag w) = fst (sendMessage ?env' m s g flag w)"
    by (simp add: sendMessage_value [OF assms] sendMessage_value [OF nonug]
        ruh_request_answering ugc_request_answering ugc_request_is_post side
        side_json_answering_same side_json_answering_other [OF other])
qed

text \<open>
  RUH answers 503 and UGC answers \<open>ok\<close>: the combined text has \<open>RUH request failed: 503\<close>
  under \<open>[RUH]\<close> and \<open>ok\<close> under \<open>[UGC]\<close>.
\<close>

theorem failed_call_becomes_placeholder_witness:
  "\<not> isUndergraduate
       (example_env (profile ''staff@uni'') (reply 503 JNull)
          (reply 200 (chat_response ''ok'' [] ''s2'')) offline)
       (identity
          (example_env (profile ''staff@uni'') (reply 503 JNull)
             (reply 200 (chat_response ''ok'' [] ''s2'')) offline) signed_in)
   \<and> failure_text ''RUH'' (reply 503 JNull) = Some ''RUH request failed: 503''
   \<and> fst (sendMessage
        (example_env (profile ''staff@uni'') (reply 503 JNull)
           (reply 200 (chat_response ''ok'' [] ''s2'')) offline)
        ''hi'' None None None signed_in)
     = Inr (chat_response (labelled_concatenation ''RUH request failed: 503'' ''ok'')
              [] ''default'')
   \<and> fst (sendMessage
        (example_env (profile ''staff@uni'')
           (reply 200 (placeholder ''RUH request failed: 503'' ''default''))
           (reply 200 (chat_response ''ok'' [] ''s2'')) offline)
        ''hi'' None None None signed_in)
     = Inr (chat_response (labelled_concatenation ''RUH request failed: 503'' ''ok'')
              [] ''default'')"
  using failed_call_becomes_placeholder
    [of "example_env (profile ''staff@uni'') (reply 503 JNull)
           (reply 200 (chat_response ''ok'' [] ''s2'')) offline"
        signed_in "''hi''" None None None]
  by (simp add: run_defs send_defs failure_text_def labelled_concatenation_def answering_def)

section \<open>Both requests are dispatched first; RUH is handled before UGC\<close>

text \<open>
  Claim C6. On the path that calls both endpoints, the effects of \<open>sendMessage\<close> after the
  identity lookup are, in this order: the dispatch of the RUH request, the dispatch of the
  UGC request, the await of the RUH promise, the handling of the RUH response (token
  rotation, then the auth check, then \<open>json()\<close> when the status is ok), the await of the
  UGC promise, the handling of the UGC response, and the log line if the operation throws.
  The stored token at the end is what the UGC response makes of what the RUH response
  made of the token stored at the start.
\<close>

theorem both_dispatched_then_ruh_before_ugc:
  assumes "\<not> isUndergraduate env (identity env w)"
  shows "trace (snd (sendMessage env m s g None w))
           = trace (after_lookup env w)
             @ [Fetch (ruh_request env m s g w), Fetch (ugc_request env m s g w)]
             @ Await (ruh_request env m s g w) # handling env (net env (ruh_request env m s g w))
             @ Await (ugc_request env m s g w) # handling env (net env (ugc_request env m s g w))
             @ (case fst (sendMessage env m s g None w) of
                  Inl e \<Rightarrow> [ConsoleError ''Error sending message:'' e]
                | Inr v \<Rightarrow> [])
       \<and> auth_token (snd (sendMessage env m s g None w))
           = token_after env (net env (ugc_request env m s g w))
               (token_after env (net env (ruh_request env m s g w)) (auth_token w))"
  using assms
  by (simp add: sendMessage_unfold trace_log_and_rethrow auth_token_log_and_rethrow
      fst_log_and_rethrow sendMessage_try_trace sendMessage_try_token ruh_request_def
      ugc_request_def auth_token_after_lookup)

text \<open>
  RUH rotates the token to \<open>T2\<close> and UGC answers 401. Both requests went out with \<open>T1\<close>;
  \<open>T2\<close> is stored while the RUH response is handled and removed while the UGC response is.
\<close>

theorem both_dispatched_then_ruh_before_ugc_witness:
  "\<not> isUndergraduate
       (example_env (profile ''staff@uni'')
          (Resolves \<lparr>status = 200, x_access_token = Some ''T2'',
                     payload = Inr (chat_response ''a'' [] ''s1'')\<rparr>)
          (reply 401 JNull) offline)
       (identity
          (example_env (profile ''staff@uni'')
             (Resolves \<lparr>status = 200, x_access_token = Some ''T2'',
                        payload = Inr (chat_response ''a'' [] ''s1'')\<rparr>)
             (reply 401 JNull) offline) signed_in)
   \<and> drop 3 (trace (snd (sendMessage
        (example_env (profile ''staff@uni'')
           (Resolves \<lparr>status = 200, x_access_token = Some ''T2'',
                      payload = Inr (chat_response ''a'' [] ''s1'')\<rparr>)
           (reply 401 JNull) offline)
        ''hi'' None None None signed_in)))
     = [Fetch (chat_request (example_env offline offline offline offline) ''ruh'' (Some ''T1'')
                (postBodyBase ''hi'' ''default'' (JStr ''staff@uni'') None)),
        Fetch (chat_request (example_env offline offline offline offline) ''ugc'' (Some ''T1'')
                (postBodyBase ''hi'' ''default'' (JStr ''staff@uni'') None)),
        Await (chat_request (example_env offline offline offline offline) ''ruh'' (Some ''T1'')
                (postBodyBase ''hi'' ''default'' (JStr ''staff@uni'') None)),
        UpdateToken \<lparr>status = 200, x_access_token = Some ''T2'',
                      payload = Inr (chat_response ''a'' [] ''s1'')\<rparr>,
        SetItem ''T2'',
        AuthCheck \<lparr>status = 200, x_access_token = Some ''T2'',
                    payload = Inr (chat_response ''a'' [] ''s1'')\<rparr>,
        Json \<lparr>status = 200, x_access_token = Some ''T2'',
               payload = Inr (chat_response ''a'' [] ''s1'')\<rparr>,
        Await (chat_request (example_env offline offline offline offline) ''ugc'' (Some ''T1'')
                (postBodyBase ''hi'' ''default'' (JStr ''staff@uni'') None)),
        UpdateToken \<lparr>status = 401, x_access_token = None, payload = Inr JNull\<rparr>,
        AuthCheck \<lparr>status = 401, x_access_token = None, payload = Inr JNull\<rparr>,
        RemoveItem,
        DispatchEvent \<lparr>ev_type = ''auth:logout'', bubbles = False, cancelable = False,
                        detail_status = 401\<rparr>]
   \<and> auth_token (snd (sendMessage
        (example_env (profile ''staff@uni'')
           (Resolves \<lparr>status = 200, x_access_token = Some ''T2'',
                      payload = Inr (chat_response ''a'' [] ''s1'')\<rparr>)
           (reply 401 JNull) offline)
        ''hi'' None None None signed_in)) = None"
  using both_dispatched_then_ruh_before_ugc
    [of "example_env (profile ''staff@uni'')
           (Resolves \<lparr>status = 200, x_access_token = Some ''T2'',
                      payload = Inr (chat_response ''a'' [] ''s1'')\<rparr>)
           (reply 401 JNull) offline"
        signed_in "''hi''" None None]
  by (simp add: run_defs send_defs handling_def response_actions_def token_after_def blank_def)

section \<open>A single side is returned as it is\<close>



section \<open>Which responses go through rotation and the auth check\<close>

text \<open>
  Claim C8, as stated, at the identity lookup. \<open>/auth/me\<close> answers 200 with the header
  \<open>x-access-token: T2\<close>: the body is read, and neither \<open>updateAccessTokenFromResponse\<close>
  nor \<open>handleAuthError\<close> was called on the response; \<open>T1\<close> stays stored. \<open>/auth/me\<close>
  answers 401 with the same header: nothing but the request happens, \<open>T1\<close> stays stored
  and no event is broadcast.
\<close>

theorem identity_response_is_not_processed_counterexample:
  "trace (after_lookup
      (example_env
         (Resolves \<lparr>status = 200, x_access_token = Some ''T2'',
                    payload = Inr (JObj [(''email'', JStr ''staff@uni'')])\<rparr>)
         offline offline offline) signed_in)
     = [Fetch (me_request (example_env offline offline offline offline) ''T1''),
        Await (me_request (example_env offline offline offline offline) ''T1''),
        Json \<lparr>status = 200, x_access_token = Some ''T2'',
               payload = Inr (JObj [(''email'', JStr ''staff@uni'')])\<rparr>]
   \<and> auth_token (after_lookup
      (example_env
         (Resolves \<lparr>status = 200, x_access_token = Some ''T2'',
                    payload = Inr (JObj [(''email'', JStr ''staff@uni'')])\<rparr>)
         offline offline offline) signed_in) = Some ''T1''
   \<and> \<not> rotation_and_auth_first
      (example_env
         (Resolves \<lparr>status = 200, x_access_token = Some ''T2'',
                    payload = Inr (JObj [(''email'', JStr ''staff@uni'')])\<rparr>)
         offline offline offline)
      (since signed_in (after_lookup
         (example_env
            (Resolves \<lparr>status = 200, x_access_token = Some ''T2'',
                       payload = Inr (JObj [(''email'', JStr ''staff@uni'')])\<rparr>)
            offline offline offline) signed_in))
   \<and> trace (after_lookup
      (example_env
         (Resolves \<lparr>status = 401, x_access_token = Some ''T2'', payload = Inr JNull\<rparr>)
         offline offline offline) signed_in)
     = [Fetch (me_request (example_env offline offline offline offline) ''T1''),
        Await (me_request (example_env offline offline offline offline) ''T1'')]
   \<and> auth_token (after_lookup
      (example_env
         (Resolves \<lparr>status = 401, x_access_token = Some ''T2'', payload = Inr JNull\<rparr>)
         offline offline offline) signed_in) = Some ''T1''"
  by (simp add: run_defs since_def rotation_and_auth_first_def)

text \<open>
  Claim C8, amended. In every method of \<open>ApiService\<close> (\<open>sendMessage\<close> on each of its
  paths, \<open>createNewChatSession\<close>, \<open>sendFeedback\<close>, \<open>getChatHistory\<close>, \<open>healthCheck\<close>,
  \<open>getChatSessions\<close>, \<open>routeLatest\<close>), among the effects that follow the identity
  lookup, every response that arrives goes through token rotation and then the auth check
  before anything else happens, and every \<open>json()\<close> is on a response that went through
  both. The identity lookup does neither: it leaves the stored token as it is and
  broadcasts nothing, whatever \<open>/auth/me\<close> answers.
\<close>

theorem guidance_responses_processed_before_body:
  "rotation_and_auth_first env (since (after_lookup env w) (snd (sendMessage env m s g flag w)))
   \<and> rotation_and_auth_first env
       (since (snd (resolve_user env u w)) (snd (createNewChatSession env u w)))
   \<and> rotation_and_auth_first env (since w (snd (sendFeedback env sid i f u w)))
   \<and> rotation_and_auth_first env
       (since (snd (resolve_user env u w)) (snd (getChatHistory env s u w)))
   \<and> rotation_and_auth_first env (since w (snd (healthCheck env w)))
   \<and> rotation_and_auth_first env
       (since (snd (resolve_user env u w)) (snd (getChatSessions env u w)))
   \<and> rotation_and_auth_first env
       (since (snd (resolve_user env u w)) (snd (routeLatest env s u w)))
   \<and> auth_token (after_lookup env w) = auth_token w
   \<and> dispatched (trace (after_lookup env w)) = dispatched (trace w)"
  by (simp only: sendMessage_processed createNewChatSession_processed sendFeedback_processed
      getChatHistory_processed healthCheck_processed getChatSessions_processed
      routeLatest_processed auth_token_after_lookup dispatched_after_lookup simp_thms)

text \<open>\<open>healthCheck\<close> on a backend that rotates the token and answers 403.\<close>

theorem guidance_responses_processed_before_body_witness:
  "since signed_in (snd (healthCheck
      (example_env offline offline offline
         (Resolves \<lparr>status = 403, x_access_token = Some ''T2'', payload = Inr JNull\<rparr>))
      signed_in))
     = [Fetch (health_request (example_env offline offline offline offline) (Some ''T1'')),
        Await (health_request (example_env offline offline offline offline) (Some ''T1'')),
        UpdateToken \<lparr>status = 403, x_access_token = Some ''T2'', payload = Inr JNull\<rparr>,
        SetItem ''T2'',
        AuthCheck \<lparr>status = 403, x_access_token = Some ''T2'', payload = Inr JNull\<rparr>,
        RemoveItem,
        DispatchEvent \<lparr>ev_type = ''auth:logout'', bubbles = False, cancelable = False,
                        detail_status = 403\<rparr>,
        ConsoleError ''Error checking health:'' (Error ''HTTP error! status: 403'')]
   \<and> rotation_and_auth_first
      (example_env offline offline offline
         (Resolves \<lparr>status = 403, x_access_token = Some ''T2'', payload = Inr JNull\<rparr>))
      (since signed_in (snd (healthCheck
         (example_env offline offline offline
            (Resolves \<lparr>status = 403, x_access_token = Some ''T2'', payload = Inr JNull\<rparr>))
         signed_in)))"
  using guidance_responses_processed_before_body
    [of "example_env offline offline offline
           (Resolves \<lparr>status = 403, x_access_token = Some ''T2'', payload = Inr JNull\<rparr>)"
        signed_in]
  by (simp add: run_defs send_defs since_def healthCheck_def health_request_def)

section \<open>Which forwarding operations resolve the identity\<close>




section \<open>An empty text in the combined response\<close>

text \<open>
  Claim C10. In the combine branch (both values are results, or neither is), whenever
  \<open>sendMessage\<close> returns: if the RUH value has no \<open>response\<close> or an empty one, the text
  under \<open>[RUH]\<close> is the literal \<open>(no response)\<close>, and the combined text is not the
  concatenation with the empty text, whatever stands under \<open>[UGC]\<close>; likewise for the UGC
  value.
\<close>

theorem empty_text_becomes_no_response:
  assumes "\<not> isUndergraduate env (identity env w)"
    and "side_json env ''RUH'' (default_session s) (ruh_request env m s g w) = b1"
    and "side_json env ''UGC'' (default_session s) (ugc_request env m s g w) = b2"
    and "truthy b1 = truthy b2"
    and "fst (sendMessage env m s g None w) = Inr v"
  shows "(missing_or_empty b1 \<longrightarrow>
            (\<exists>t. get_prop v ''response''
                   = Some (JStr (labelled_concatenation ''(no response)'' t)))
          \<and> (\<forall>t. get_prop v ''response'' \<noteq> Some (JStr (labelled_concatenation [] t))))
       \<and> (missing_or_empty b2 \<longrightarrow>
            (\<exists>t. get_prop v ''response''
                   = Some (JStr (labelled_concatenation t ''(no response)'')))
          \<and> (\<forall>t. get_prop v ''response'' \<noteq> Some (JStr (labelled_concatenation t []))))"
proof -
  have "combine b1 b2 (default_session s) = Inr v"
    using assms(2,3,5) by (simp add: sendMessage_value [OF assms(1)])
  then have resp: "get_prop v ''response''
     = Some (JStr (labelled_concatenation
         (js_String (or_js (get_prop b1 ''response'') (JStr ''(no response)'')))
         (js_String (or_js (get_prop b2 ''response'') (JStr ''(no response)'')))))"
    using assms(4) by (rule combine_response [rotated])
  show ?thesis
  proof (intro conjI impI)
    assume "missing_or_empty b1"
    then have "get_prop v ''response''
        = Some (JStr (labelled_concatenation ''(no response)''
            (js_String (or_js (get_prop b2 ''response'') (JStr ''(no response)'')))))"
      by (simp add: resp or_js_missing_or_empty)
    then show "\<exists>t. get_prop v ''response''
                   = Some (JStr (labelled_concatenation ''(no response)'' t))"
      and "\<forall>t. get_prop v ''response'' \<noteq> Some (JStr (labelled_concatenation [] t))"
      by (blast, simp add: labelled_left_differs)
  next
    assume "missing_or_empty b2"
    then have "get_prop v ''response''
        = Some (JStr (labelled_concatenation
            (js_String (or_js (get_prop b1 ''response'') (JStr ''(no response)'')))
            ''(no response)''))"
      by (simp add: resp or_js_missing_or_empty)
    then show "\<exists>t. get_prop v ''response''
                   = Some (JStr (labelled_concatenation t ''(no response)''))"
      and "\<forall>t. get_prop v ''response'' \<noteq> Some (JStr (labelled_concatenation t []))"
      by (blast, simp add: labelled_right_differs)
  qed
qed

text \<open>RUH answers with an object that has no \<open>response\<close> at all.\<close>

theorem empty_text_becomes_no_response_witness:
  "\<not> isUndergraduate
       (example_env (profile ''staff@uni'') (reply 200 (JObj [(''session_id'', JStr ''s1'')]))
          (reply 200 (chat_response ''ok'' [] ''s2'')) offline)
       (identity
          (example_env (profile ''staff@uni'') (reply 200 (JObj [(''session_id'', JStr ''s1'')]))
             (reply 200 (chat_response ''ok'' [] ''s2'')) offline) signed_in)
   \<and> missing_or_empty (JObj [(''session_id'', JStr ''s1'')])
   \<and> fst (sendMessage
        (example_env (profile ''staff@uni'') (reply 200 (JObj [(''session_id'', JStr ''s1'')]))
           (reply 200 (chat_response ''ok'' [] ''s2'')) offline)
        ''hi'' None None None signed_in)
     = Inr (chat_response (labelled_concatenation ''(no response)'' ''ok'') [] ''s1'')
   \<and> get_prop (chat_response (labelled_concatenation ''(no response)'' ''ok'') [] ''s1'')
        ''response'' \<noteq> Some (JStr (labelled_concatenation [] ''ok''))"
  using empty_text_becomes_no_response
    [of "example_env (profile ''staff@uni'') (reply 200 (JObj [(''session_id'', JStr ''s1'')]))
           (reply 200 (chat_response ''ok'' [] ''s2'')) offline"
        signed_in None "''hi''" None "JObj [(''session_id'', JStr ''s1'')]"
        "chat_response ''ok'' [] ''s2''"
        "chat_response (labelled_concatenation ''(no response)'' ''ok'') [] ''s1''"]
  by (simp add: run_defs send_defs side_json_def blank_def labelled_concatenation_def missing_or_empty_def)

end
